theory Spec2Isabelle
  imports Complex_Main "HOL-Library.Word"
begin

section \<open>Numeric and time model\<close>

text \<open>
  The Go sources compute sub-scores in \<open>float64\<close> and store results in \<open>uint8\<close>,
  \<open>uint16\<close> and \<open>uint32\<close> fields. Machine integers are words, so that subtraction and
  addition wrap as in Go. A \<open>float64\<close> is modelled by the exact real number it stands for:
  rounding error, infinities and NaN are outside the model. A \<open>time.Time\<close> is an integer
  number of nanoseconds counted from Go's zero time, so that the zero value of the type is
  \<open>0\<close>; a \<open>time.Duration\<close> is an integer difference of two of them (Go saturates a
  duration at about 292 years, which does not change any comparison with 7 or 30 days made
  below). Every call of \<open>time.Now()\<close> within one operation reads the same instant.
\<close>

type_synonym uint8 = "8 word"
type_synonym uint16 = "16 word"
type_synonym uint32 = "32 word"
type_synonym float64 = real
type_synonym time = int

definition Hour :: int where
  "Hour = 3600 * 1000000000"

definition Since :: "time \<Rightarrow> time \<Rightarrow> int" where
  "Since now t = now - t"

text \<open>
  Go's conversion \<open>uint16(f)\<close> of a float truncates towards zero. When the truncated value
  does not fit, Go leaves the result to the implementation; the amd64 compiler converts to
  a signed 64-bit integer and keeps the low 16 bits, which is what \<open>word_of_int\<close> does. A
  value that does not fit 64 bits either converts to the integer \<open>- 2 ^ 63\<close>, whose low 16
  bits are 0.
\<close>

definition trunc :: "real \<Rightarrow> int" where
  "trunc x = (if 0 \<le> x then \<lfloor>x\<rfloor> else \<lceil>x\<rceil>)"

definition uint16_of_float :: "float64 \<Rightarrow> uint16" where
  "uint16_of_float x =
     (if - (2 ^ 63) \<le> trunc x \<and> trunc x < 2 ^ 63 then word_of_int (trunc x) else 0)"

definition float_of_uint16 :: "uint16 \<Rightarrow> float64" where
  "float_of_uint16 w = of_nat (unat w)"

definition float_of_uint32 :: "uint32 \<Rightarrow> float64" where
  "float_of_uint32 w = of_nat (unat w)"

definition float_of_uint8 :: "uint8 \<Rightarrow> float64" where
  "float_of_uint8 w = of_nat (unat w)"

section \<open>Errors\<close>

text \<open>
  A Go \<open>error\<close> is either a message or \<open>fmt.Errorf("<prefix>: %w", err)\<close>, which wraps
  another error. \<open>Error\<close> is the method \<open>Error()\<close>, the text of the error. A run-time
  panic is not an error that a function returns: the call is abandoned. Where a function of
  the model gives \<open>Panic\<close> in the place of its error, the source does not return at all.
\<close>

datatype error = Err string | Wrap string error | Panic string

fun Error :: "error \<Rightarrow> string" where
  "Error (Err m) = m"
| "Error (Wrap p e) = p @ '': '' @ Error e"
| "Error (Panic m) = m"

section \<open>Provider responses (packages providers and aggregator)\<close>

record CreditBureauResponse =
  CreditScore :: uint16
  DebtToIncome :: float64
  EmploymentStatus :: string
  IncomeLevel :: string

record BankDataResponse =
  AccountHistory :: uint8
  IncomeVerified :: bool
  AverageBalance :: float64

record DeFiActivity =
  Protocol :: string
  ActivityType :: string
  Amount :: float64
  TokenSymbol :: string
  TransactionHash :: string
  Timestamp :: time
  Status :: string

record LendingPosition =
  Protocol :: string
  PositionType :: string
  SuppliedAmount :: float64
  BorrowedAmount :: float64
  CollateralAmount :: float64
  HealthFactor :: float64
  APY :: float64
  LastUpdated :: time

record LiquidationEvent =
  Protocol :: string
  LiquidatedAmount :: float64
  CollateralLost :: float64
  TokenSymbol :: string
  TransactionHash :: string
  Timestamp :: time
  Reason :: string

text \<open>
  \<open>BlockchainSummary\<close> without its \<open>TokenBalances\<close> map, which the aggregator never
  reads. A Go \<open>int\<close> is an \<open>int\<close> here; its conversion to \<open>uint32\<close> keeps the low 32 bits.
\<close>

record BlockchainSummary =
  Address :: string
  WalletAge :: int
  FirstTransaction :: time
  LastTransaction :: time
  TotalTransactions :: int
  TotalVolume :: float64
  AverageTransactionSize :: float64
  DeFiActivities :: "DeFiActivity list"
  LendingPositions :: "LendingPosition list"
  LiquidationEvents :: "LiquidationEvent list"
  NFTHoldings :: int
  TotalPortfolioValue :: float64
  LastUpdated :: time

text \<open>\<open>BlockscoutAnalytics\<close> without its token list, which only feeds \<open>TokenBalances\<close>.\<close>

record BlockscoutAnalytics =
  Address :: string
  Balance :: float64
  BalanceUSD :: float64
  FirstTransactionDate :: time
  LastTransactionDate :: time
  WalletAgeDays :: int
  TotalTransactions :: int
  TotalTokenTransfers :: int
  TotalInternalTxs :: int
  TotalGasUsed :: float64
  AverageTransactionSize :: float64
  NFTCount :: int
  IsContract :: bool
  DeFiInteractionCount :: int
  UniqueContractsCount :: int
  LastUpdated :: time

text \<open>
  The result of \<open>providers.GetMultiChainAnalytics\<close>. Its declaration is not among the
  sources; the aggregator reads the three fields below, and hands the value to
  \<open>providers.ConvertMultiChainToBlockchainSummary\<close>, whose result is kept in \<open>Summary\<close>.
\<close>

record MultiChainAnalytics =
  TotalChains :: int
  ActiveChains :: "string list"
  TotalTransactions :: int
  Summary :: BlockchainSummary

section \<open>Data model (package models)\<close>

record CreditScore =
  ID :: nat
  UserAddress :: string
  Score :: uint16
  Confidence :: uint8
  OnChainScore :: uint16
  OffChainScore :: uint16
  HybridScore :: uint16
  DataHash :: string
  LastUpdated :: time
  NextUpdateDue :: time
  UpdateCount :: uint32
  IsActive :: bool
  CreatedAt :: time
  UpdatedAt :: time

record ScoreHistory =
  ID :: nat
  UserAddress :: string
  Score :: uint16
  Confidence :: uint8
  DataHash :: string
  Timestamp :: time
  CreatedAt :: time

record OnChainMetrics =
  ID :: nat
  UserAddress :: string
  WalletAge :: uint32
  TotalTransactions :: uint32
  AvgTransactionValue :: float64
  DeFiInteractions :: uint32
  BorrowingHistory :: uint32
  RepaymentHistory :: uint32
  LiquidationEvents :: uint32
  CollateralValue :: float64
  LastActivity :: time
  CreatedAt :: time
  UpdatedAt :: time

record OffChainMetrics =
  ID :: nat
  UserAddress :: string
  TraditionalCreditScore :: uint16
  BankAccountHistory :: uint8
  IncomeVerified :: bool
  IncomeLevel :: string
  EmploymentStatus :: string
  DebtToIncomeRatio :: float64
  DataSource :: string
  LastVerified :: time
  CreatedAt :: time
  UpdatedAt :: time

record OracleUpdate =
  ID :: nat
  UserAddress :: string
  Score :: uint16
  Confidence :: uint8
  DataHash :: string
  TxHash :: string
  BlockNumber :: nat
  Status :: string
  GasUsed :: nat
  ErrorMessage :: string
  RetryCount :: uint8
  CreatedAt :: time
  UpdatedAt :: time

section \<open>Scoring engine (package scoring)\<close>

definition OnChainWeight :: float64 where "OnChainWeight = 0.40"
definition OffChainWeight :: float64 where "OffChainWeight = 0.40"
definition HybridWeight :: float64 where "HybridWeight = 0.20"

definition MinScore :: uint16 where "MinScore = 300"
definition MaxScore :: uint16 where "MaxScore = 850"

definition scoreWalletAge :: "uint32 \<Rightarrow> float64" where
  "scoreWalletAge ageInDays =
     (if ageInDays \<ge> 730 then 1.0 else float_of_uint32 ageInDays / 730.0)"

definition scoreTransactionActivity :: "uint32 \<Rightarrow> float64 \<Rightarrow> float64" where
  "scoreTransactionActivity txCount avgValue =
     (let txScore = min (float_of_uint32 txCount / 100.0) 1.0 * 0.6;
          valueScore = min (avgValue / 1000.0) 1.0 * 0.4
      in txScore + valueScore)"

definition scoreDeFiActivity :: "uint32 \<Rightarrow> float64" where
  "scoreDeFiActivity interactions = min (float_of_uint32 interactions / 50.0) 1.0"

definition scoreBorrowingHistory :: "uint32 \<Rightarrow> uint32 \<Rightarrow> uint32 \<Rightarrow> float64" where
  "scoreBorrowingHistory borrowed repaid liquidations =
     (if borrowed = 0 then 0.5
      else
        let repaymentRatio = float_of_uint32 repaid / float_of_uint32 borrowed;
            liquidationPenalty = float_of_uint32 liquidations * 0.2;
            score = repaymentRatio - liquidationPenalty;
            score = (if score < 0 then 0 else score);
            score = (if score > 1.0 then 1.0 else score)
        in score)"

definition scoreCollateral :: "float64 \<Rightarrow> float64" where
  "scoreCollateral v = min (v / 10000.0) 1.0"

definition scoreIncome :: "bool \<Rightarrow> string \<Rightarrow> float64" where
  "scoreIncome verified level =
     (if \<not> verified then 0.3
      else if level = ''high'' then 1.0
      else if level = ''medium'' then 0.7
      else if level = ''low'' then 0.5
      else 0.3)"

definition scoreDTI :: "float64 \<Rightarrow> float64" where
  "scoreDTI ratio =
     (if ratio \<le> 0.36 then 1.0
      else if ratio \<le> 0.43 then 0.7
      else if ratio \<le> 0.50 then 0.4
      else 0.2)"

text \<open>The weighted sum that \<open>calculateOnChainScore\<close> accumulates in its local \<open>score\<close>.\<close>

definition onChainRaw :: "OnChainMetrics \<Rightarrow> float64" where
  "onChainRaw m =
     (let score = 0;
          score = score + scoreWalletAge (WalletAge m) * 0.25;
          score = score + scoreTransactionActivity (TotalTransactions m)
                            (AvgTransactionValue m) * 0.20;
          score = score + scoreDeFiActivity (DeFiInteractions m) * 0.15;
          score = score + scoreBorrowingHistory (BorrowingHistory m) (RepaymentHistory m)
                            (LiquidationEvents m) * 0.30;
          score = score + scoreCollateral (CollateralValue m) * 0.10
      in score)"

definition calculateOnChainScore :: "OnChainMetrics option \<Rightarrow> uint16" where
  "calculateOnChainScore metrics =
     (case metrics of
        None \<Rightarrow> MinScore
      | Some m \<Rightarrow>
          MinScore + uint16_of_float (onChainRaw m * float_of_uint16 (MaxScore - MinScore)))"

text \<open>
  The local \<open>score\<close> of \<open>calculateOffChainScore\<close>. The subtraction
  \<open>TraditionalCreditScore - MinScore\<close> is a \<open>uint16\<close> subtraction in the source, made
  before the conversion to \<open>float64\<close>.
\<close>

definition offChainRaw :: "OffChainMetrics \<Rightarrow> float64" where
  "offChainRaw m =
     (let score = 0;
          score = (if TraditionalCreditScore m > 0
                   then score + float_of_uint16 (TraditionalCreditScore m - MinScore)
                                  / float_of_uint16 (MaxScore - MinScore) * 0.50
                   else score);
          score = score + float_of_uint8 (BankAccountHistory m) / 100.0 * 0.20;
          score = score + scoreIncome (IncomeVerified m) (IncomeLevel m) * 0.15;
          score = score + scoreDTI (DebtToIncomeRatio m) * 0.15
      in score)"

definition calculateOffChainScore :: "OffChainMetrics option \<Rightarrow> uint16" where
  "calculateOffChainScore metrics =
     (case metrics of
        None \<Rightarrow> MinScore
      | Some m \<Rightarrow>
          MinScore + uint16_of_float (offChainRaw m * float_of_uint16 (MaxScore - MinScore)))"

definition hybridRaw :: "time \<Rightarrow> OnChainMetrics option \<Rightarrow> OffChainMetrics option \<Rightarrow> float64" where
  "hybridRaw now onChain offChain =
     (case (onChain, offChain) of
        (Some on, Some off) \<Rightarrow>
          (let score = 0;
               score = (if RepaymentHistory on > 5 \<and> IncomeVerified off
                        then score + 0.30 else score);
               score = (if Since now (LastActivity on) < 30 * 24 * Hour
                        then score + 0.20 else score);
               score = (if CollateralValue on > 1000 \<and> IncomeVerified off
                        then score + 0.25 else score);
               score = (if EmploymentStatus off = ''full-time''
                           \<or> EmploymentStatus off = ''self-employed''
                        then score + 0.25 else score)
           in score)
      | _ \<Rightarrow> 0)"

definition calculateHybridScore ::
  "time \<Rightarrow> OnChainMetrics option \<Rightarrow> OffChainMetrics option \<Rightarrow> uint16" where
  "calculateHybridScore now onChain offChain =
     (let score = hybridRaw now onChain offChain;
          score = (if score > 1.0 then 1.0 else score)
      in MinScore + uint16_of_float (score * float_of_uint16 (MaxScore - MinScore)))"

text \<open>The local \<open>confidence\<close> of \<open>calculateConfidence\<close> is a Go \<open>int\<close>.\<close>

definition confidenceRaw :: "time \<Rightarrow> OnChainMetrics option \<Rightarrow> OffChainMetrics option \<Rightarrow> int" where
  "confidenceRaw now onChain offChain =
     (let confidence = 0;
          confidence =
            (case onChain of
               None \<Rightarrow> confidence
             | Some on \<Rightarrow>
                 (let c = (if Since now (LastActivity on) < 7 * 24 * Hour then confidence + 20
                           else if Since now (LastActivity on) < 30 * 24 * Hour
                           then confidence + 10 else confidence);
                      c = (if TotalTransactions on > 10 then c + 15 else c);
                      c = (if BorrowingHistory on > 0 then c + 15 else c)
                  in c));
          confidence =
            (case offChain of
               None \<Rightarrow> confidence
             | Some off \<Rightarrow>
                 (let c = (if TraditionalCreditScore off > 0 then confidence + 25
                           else confidence);
                      c = (if IncomeVerified off then c + 15 else c);
                      c = (if Since now (LastVerified off) < 30 * 24 * Hour then c + 10 else c)
                  in c))
      in (if confidence > 100 then 100 else confidence))"

definition calculateConfidence ::
  "time \<Rightarrow> OnChainMetrics option \<Rightarrow> OffChainMetrics option \<Rightarrow> uint8" where
  "calculateConfidence now onChain offChain = word_of_int (confidenceRaw now onChain offChain)"

text \<open>
  \<open>generateDataHash\<close> is a SHA-256 digest of the JSON encoding of the two snapshots, the
  score and the current time. The digest comes from the Go standard library; it is a
  parameter of the model.
\<close>

type_synonym digest =
  "OnChainMetrics option \<Rightarrow> OffChainMetrics option \<Rightarrow> uint16 \<Rightarrow> time \<Rightarrow> string"

definition generateDataHash ::
  "digest \<Rightarrow> time \<Rightarrow> OnChainMetrics option \<Rightarrow> OffChainMetrics option \<Rightarrow> uint16 \<Rightarrow> string" where
  "generateDataHash H now onChain offChain score = H onChain offChain score now"

definition compositeRaw :: "uint16 \<Rightarrow> uint16 \<Rightarrow> uint16 \<Rightarrow> uint16" where
  "compositeRaw onChainScore offChainScore hybridScore =
     uint16_of_float
       (float_of_uint16 onChainScore * OnChainWeight
        + float_of_uint16 offChainScore * OffChainWeight
        + float_of_uint16 hybridScore * HybridWeight)"

definition clampScore :: "uint16 \<Rightarrow> uint16" where
  "clampScore finalScore =
     (let finalScore = (if finalScore < MinScore then MinScore else finalScore);
          finalScore = (if finalScore > MaxScore then MaxScore else finalScore)
      in finalScore)"

definition CalculateScore ::
  "digest \<Rightarrow> time \<Rightarrow> OnChainMetrics option \<Rightarrow> OffChainMetrics option \<Rightarrow> CreditScore" where
  "CalculateScore H now onChain offChain =
     (let onChainScore = calculateOnChainScore onChain;
          offChainScore = calculateOffChainScore offChain;
          hybridScore = calculateHybridScore now onChain offChain;
          finalScore = clampScore (compositeRaw onChainScore offChainScore hybridScore);
          confidence = calculateConfidence now onChain offChain;
          dataHash = generateDataHash H now onChain offChain finalScore
      in \<lparr> CreditScore.ID = 0,
           CreditScore.UserAddress = [],
           CreditScore.Score = finalScore,
           CreditScore.Confidence = confidence,
           OnChainScore = onChainScore,
           OffChainScore = offChainScore,
           HybridScore = hybridScore,
           CreditScore.DataHash = dataHash,
           LastUpdated = now,
           NextUpdateDue = now + 30 * 24 * Hour,
           UpdateCount = 0,
           IsActive = True,
           CreditScore.CreatedAt = 0,
           CreditScore.UpdatedAt = 0 \<rparr>)"

definition ValidateScore :: "uint16 \<Rightarrow> bool" where
  "ValidateScore score = (\<not> (score < MinScore \<or> score > MaxScore))"

section \<open>Persistence (package repository)\<close>

text \<open>
  The repository is a thin layer over GORM. The database is modelled by its five tables,
  each a list of rows in primary-key order. What GORM and the database do is taken from
  the struct tags of package models: \<open>primaryKey\<close> (a fresh key is assigned on insert when
  the key is zero, and an insert that repeats a key fails), \<open>uniqueIndex\<close> on
  \<open>user_address\<close> and on \<open>tx_hash\<close> (a write that repeats a value fails), \<open>default:true\<close> and \<open>default:'pending'\<close> (a zero value is
  replaced on insert), and the tracked \<open>CreatedAt\<close> and \<open>UpdatedAt\<close> columns. Any call
  may also fail for reasons outside the program; \<open>dbFault\<close> says which.
\<close>

record Store =
  credit_scores :: "CreditScore list"
  score_history :: "ScoreHistory list"
  on_chain_metrics :: "OnChainMetrics list"
  off_chain_metrics :: "OffChainMetrics list"
  oracle_updates :: "OracleUpdate list"

datatype db_op =
  OpCreate | OpUpdate | OpGetByAddress | OpCreateHistory
  | OpUpsertOnChainMetrics | OpUpsertOffChainMetrics | OpCreateOracleUpdate

definition ErrDuplicate :: "string \<Rightarrow> error" where
  "ErrDuplicate column = Err (''UNIQUE constraint failed: '' @ column)"

definition next_id :: "nat list \<Rightarrow> nat" where
  "next_id ids = Suc (fold max ids 0)"

definition auto_time :: "time \<Rightarrow> time \<Rightarrow> time" where
  "auto_time now t = (if t = 0 then now else t)"

text \<open>\<open>ScoreRepository.Create\<close>: the inserted row is also written back to the caller's struct.\<close>

definition Create ::
  "(db_op \<Rightarrow> error option) \<Rightarrow> time \<Rightarrow> Store \<Rightarrow> CreditScore
   \<Rightarrow> error option \<times> CreditScore \<times> Store" where
  "Create dbFault now st score =
     (case dbFault OpCreate of
        Some e \<Rightarrow> (Some e, score, st)
      | None \<Rightarrow>
          if CreditScore.UserAddress score \<in> set (map CreditScore.UserAddress (credit_scores st))
          then (Some (ErrDuplicate ''credit_scores.user_address''), score, st)
          else if CreditScore.ID score \<noteq> 0
                  \<and> CreditScore.ID score \<in> set (map CreditScore.ID (credit_scores st))
          then (Some (ErrDuplicate ''credit_scores.id''), score, st)
          else
            let row = score
                  \<lparr> CreditScore.ID :=
                      (if CreditScore.ID score = 0
                       then next_id (map CreditScore.ID (credit_scores st))
                       else CreditScore.ID score),
                    IsActive := True,
                    CreditScore.CreatedAt := auto_time now (CreditScore.CreatedAt score),
                    CreditScore.UpdatedAt := auto_time now (CreditScore.UpdatedAt score) \<rparr>
            in (None, row, st\<lparr>credit_scores := credit_scores st @ [row]\<rparr>))"

text \<open>
  \<open>ScoreRepository.Update\<close> is GORM's \<open>Save\<close>: \<open>UpdatedAt\<close> is set to the current time and
  every column of the row with the struct's primary key is overwritten, unless another row
  has the same address; without such a row the struct is inserted.
\<close>

definition Update ::
  "(db_op \<Rightarrow> error option) \<Rightarrow> time \<Rightarrow> Store \<Rightarrow> CreditScore
   \<Rightarrow> error option \<times> CreditScore \<times> Store" where
  "Update dbFault now st score =
     (case dbFault OpUpdate of
        Some e \<Rightarrow> (Some e, score, st)
      | None \<Rightarrow>
          let row = score\<lparr>CreditScore.UpdatedAt := now\<rparr>
          in if CreditScore.ID score \<noteq> 0
                \<and> CreditScore.ID score \<in> set (map CreditScore.ID (credit_scores st))
             then
               if CreditScore.UserAddress score
                  \<in> set (map CreditScore.UserAddress
                           (filter (\<lambda>r. CreditScore.ID r \<noteq> CreditScore.ID score)
                              (credit_scores st)))
               then (Some (ErrDuplicate ''credit_scores.user_address''), score, st)
               else (None, row,
                     st\<lparr>credit_scores :=
                          map (\<lambda>r. if CreditScore.ID r = CreditScore.ID score then row else r)
                            (credit_scores st)\<rparr>)
             else Create (\<lambda>_. None) now st row)"

definition GetByAddress ::
  "(db_op \<Rightarrow> error option) \<Rightarrow> Store \<Rightarrow> string \<Rightarrow> error + CreditScore option" where
  "GetByAddress dbFault st address =
     (case dbFault OpGetByAddress of
        Some e \<Rightarrow> Inl (Wrap ''failed to get credit score'' e)
      | None \<Rightarrow>
          Inr (find (\<lambda>r. CreditScore.UserAddress r = address \<and> IsActive r = True)
                 (credit_scores st)))"

definition CreateHistory ::
  "(db_op \<Rightarrow> error option) \<Rightarrow> time \<Rightarrow> Store \<Rightarrow> ScoreHistory \<Rightarrow> error option \<times> Store" where
  "CreateHistory dbFault now st history =
     (case dbFault OpCreateHistory of
        Some e \<Rightarrow> (Some e, st)
      | None \<Rightarrow>
          if ScoreHistory.ID history \<noteq> 0
             \<and> ScoreHistory.ID history \<in> set (map ScoreHistory.ID (score_history st))
          then (Some (ErrDuplicate ''score_histories.id''), st)
          else
            let row = history
                  \<lparr> ScoreHistory.ID :=
                      (if ScoreHistory.ID history = 0
                       then next_id (map ScoreHistory.ID (score_history st))
                       else ScoreHistory.ID history),
                    ScoreHistory.CreatedAt := auto_time now (ScoreHistory.CreatedAt history) \<rparr>
            in (None, st\<lparr>score_history := score_history st @ [row]\<rparr>))"

definition UpsertOnChainMetrics ::
  "(db_op \<Rightarrow> error option) \<Rightarrow> time \<Rightarrow> Store \<Rightarrow> OnChainMetrics
   \<Rightarrow> error option \<times> OnChainMetrics \<times> Store" where
  "UpsertOnChainMetrics dbFault now st metrics =
     (case dbFault OpUpsertOnChainMetrics of
        Some e \<Rightarrow> (Some e, metrics, st)
      | None \<Rightarrow>
          (case find (\<lambda>r. OnChainMetrics.UserAddress r = OnChainMetrics.UserAddress metrics)
                  (on_chain_metrics st) of
             None \<Rightarrow>
               if OnChainMetrics.ID metrics \<noteq> 0
                  \<and> OnChainMetrics.ID metrics \<in> set (map OnChainMetrics.ID (on_chain_metrics st))
               then (Some (ErrDuplicate ''on_chain_metrics.id''), metrics, st)
               else
                 let row = metrics
                       \<lparr> OnChainMetrics.ID :=
                           (if OnChainMetrics.ID metrics = 0
                            then next_id (map OnChainMetrics.ID (on_chain_metrics st))
                            else OnChainMetrics.ID metrics),
                         OnChainMetrics.CreatedAt :=
                           auto_time now (OnChainMetrics.CreatedAt metrics),
                         OnChainMetrics.UpdatedAt :=
                           auto_time now (OnChainMetrics.UpdatedAt metrics) \<rparr>
                 in (None, row, st\<lparr>on_chain_metrics := on_chain_metrics st @ [row]\<rparr>)
           | Some existing \<Rightarrow>
               let row = metrics
                     \<lparr> OnChainMetrics.ID := OnChainMetrics.ID existing,
                       OnChainMetrics.CreatedAt := OnChainMetrics.CreatedAt existing,
                       OnChainMetrics.UpdatedAt := now \<rparr>
               in (None, row,
                   st\<lparr>on_chain_metrics :=
                        map (\<lambda>r. if OnChainMetrics.ID r = OnChainMetrics.ID existing
                                  then row else r)
                          (on_chain_metrics st)\<rparr>)))"

definition UpsertOffChainMetrics ::
  "(db_op \<Rightarrow> error option) \<Rightarrow> time \<Rightarrow> Store \<Rightarrow> OffChainMetrics
   \<Rightarrow> error option \<times> OffChainMetrics \<times> Store" where
  "UpsertOffChainMetrics dbFault now st metrics =
     (case dbFault OpUpsertOffChainMetrics of
        Some e \<Rightarrow> (Some e, metrics, st)
      | None \<Rightarrow>
          (case find (\<lambda>r. OffChainMetrics.UserAddress r = OffChainMetrics.UserAddress metrics)
                  (off_chain_metrics st) of
             None \<Rightarrow>
               if OffChainMetrics.ID metrics \<noteq> 0
                  \<and> OffChainMetrics.ID metrics \<in> set (map OffChainMetrics.ID (off_chain_metrics st))
               then (Some (ErrDuplicate ''off_chain_metrics.id''), metrics, st)
               else
                 let row = metrics
                       \<lparr> OffChainMetrics.ID :=
                           (if OffChainMetrics.ID metrics = 0
                            then next_id (map OffChainMetrics.ID (off_chain_metrics st))
                            else OffChainMetrics.ID metrics),
                         OffChainMetrics.CreatedAt :=
                           auto_time now (OffChainMetrics.CreatedAt metrics),
                         OffChainMetrics.UpdatedAt :=
                           auto_time now (OffChainMetrics.UpdatedAt metrics) \<rparr>
                 in (None, row, st\<lparr>off_chain_metrics := off_chain_metrics st @ [row]\<rparr>)
           | Some existing \<Rightarrow>
               let row = metrics
                     \<lparr> OffChainMetrics.ID := OffChainMetrics.ID existing,
                       OffChainMetrics.CreatedAt := OffChainMetrics.CreatedAt existing,
                       OffChainMetrics.UpdatedAt := now \<rparr>
               in (None, row,
                   st\<lparr>off_chain_metrics :=
                        map (\<lambda>r. if OffChainMetrics.ID r = OffChainMetrics.ID existing
                                  then row else r)
                          (off_chain_metrics st)\<rparr>)))"

definition CreateOracleUpdate ::
  "(db_op \<Rightarrow> error option) \<Rightarrow> time \<Rightarrow> Store \<Rightarrow> OracleUpdate \<Rightarrow> error option \<times> Store" where
  "CreateOracleUpdate dbFault now st update =
     (case dbFault OpCreateOracleUpdate of
        Some e \<Rightarrow> (Some e, st)
      | None \<Rightarrow>
          if TxHash update \<in> set (map TxHash (oracle_updates st))
          then (Some (ErrDuplicate ''oracle_updates.tx_hash''), st)
          else if OracleUpdate.ID update \<noteq> 0
                  \<and> OracleUpdate.ID update \<in> set (map OracleUpdate.ID (oracle_updates st))
          then (Some (ErrDuplicate ''oracle_updates.id''), st)
          else
            let row = update
                  \<lparr> OracleUpdate.ID :=
                      (if OracleUpdate.ID update = 0
                       then next_id (map OracleUpdate.ID (oracle_updates st))
                       else OracleUpdate.ID update),
                    Status := (if Status update = [] then ''pending'' else Status update),
                    OracleUpdate.CreatedAt := auto_time now (OracleUpdate.CreatedAt update),
                    OracleUpdate.UpdatedAt := auto_time now (OracleUpdate.UpdatedAt update) \<rparr>
            in (None, st\<lparr>oracle_updates := oracle_updates st @ [row]\<rparr>))"

section \<open>Off-chain aggregation (package aggregator)\<close>

text \<open>
  \<open>OffChainAggregator.FetchMetrics\<close>. The two HTTP sub-fetches \<open>fetchCreditBureauData\<close> and
  \<open>fetchBankData\<close> are given by their results.
\<close>

definition OffChainAggregator_FetchMetrics ::
  "time \<Rightarrow> (error + CreditBureauResponse) \<Rightarrow> (error + BankDataResponse) \<Rightarrow> string
   \<Rightarrow> error + OffChainMetrics" where
  "OffChainAggregator_FetchMetrics now creditResult bankResult address =
     (let metrics =
            \<lparr> OffChainMetrics.ID = 0, OffChainMetrics.UserAddress = address,
              TraditionalCreditScore = 0, BankAccountHistory = 0, IncomeVerified = False,
              IncomeLevel = [], EmploymentStatus = [], DebtToIncomeRatio = 0,
              DataSource = [], LastVerified = 0,
              OffChainMetrics.CreatedAt = 0, OffChainMetrics.UpdatedAt = 0 \<rparr>;
          metrics =
            (case creditResult of
               Inl err \<Rightarrow> metrics
             | Inr creditData \<Rightarrow>
                 metrics\<lparr> TraditionalCreditScore := CreditBureauResponse.CreditScore creditData,
                          DebtToIncomeRatio := DebtToIncome creditData,
                          EmploymentStatus := CreditBureauResponse.EmploymentStatus creditData,
                          IncomeLevel := CreditBureauResponse.IncomeLevel creditData \<rparr>);
          metrics =
            (case bankResult of
               Inl err \<Rightarrow> metrics
             | Inr bankData \<Rightarrow>
                 metrics\<lparr> BankAccountHistory := AccountHistory bankData,
                          IncomeVerified := BankDataResponse.IncomeVerified bankData \<rparr>);
          metrics = metrics\<lparr> DataSource := ''credit_bureau,bank_api'',
                             LastVerified := now,
                             OffChainMetrics.UpdatedAt := now \<rparr>
      in Inr metrics)"

section \<open>Oracle coordination service (package service)\<close>

text \<open>
  Everything the service reads from outside the process: the clock, the digest, database
  faults, the result of the on-chain fetch for an address, the results of the two off-chain
  sub-fetches for a user, and the blockchain client. The service holds a pointer to the
  client, which is nil (\<open>None\<close>) when package routes finds the chain settings unset or cannot
  connect; a client is given by the result \<open>(tx, err)\<close> of its \<open>UpdateCreditScore\<close>, where a
  transaction is given by the text of its hash.
\<close>

type_synonym OracleClient =
  "string \<Rightarrow> uint16 \<Rightarrow> uint8 \<Rightarrow> string \<Rightarrow> string option \<times> error option"

record Env =
  clock :: time
  sha256json :: digest
  dbFault :: "db_op \<Rightarrow> error option"
  onChainFetch :: "string \<Rightarrow> error + OnChainMetrics"
  fetchCreditBureauData :: "string \<Rightarrow> error + CreditBureauResponse"
  fetchBankData :: "string \<Rightarrow> error + BankDataResponse"
  blockchainClient :: "OracleClient option"

definition CalculateAndUpdateScore ::
  "Env \<Rightarrow> Store \<Rightarrow> string \<Rightarrow> string \<Rightarrow> (error + CreditScore) \<times> Store" where
  "CalculateAndUpdateScore env st address userID =
     (case onChainFetch env address of
        Inl err \<Rightarrow> (Inl (Wrap ''failed to fetch on-chain metrics'' err), st)
      | Inr fetched \<Rightarrow>
          (let (err, onChainMetrics, st) =
                 UpsertOnChainMetrics (dbFault env) (clock env) st fetched;
               offChainMetrics =
                 (case OffChainAggregator_FetchMetrics (clock env)
                         (fetchCreditBureauData env userID) (fetchBankData env userID) address of
                    Inl err \<Rightarrow> None
                  | Inr m \<Rightarrow> Some m);
               (offChainMetrics, st) =
                 (case offChainMetrics of
                    None \<Rightarrow> (None, st)
                  | Some m \<Rightarrow>
                      (let (err, m, st) = UpsertOffChainMetrics (dbFault env) (clock env) st m
                       in (Some m, st)));
               score = CalculateScore (sha256json env) (clock env)
                         (Some onChainMetrics) offChainMetrics;
               score = score\<lparr>CreditScore.UserAddress := address\<rparr>
           in case GetByAddress (dbFault env) st address of
                Inl err \<Rightarrow> (Inl (Wrap ''failed to check existing score'' err), st)
              | Inr existingScore \<Rightarrow>
                  (let (err, score, st) =
                         (case existingScore of
                            Some existing \<Rightarrow>
                              (let score = score
                                     \<lparr> CreditScore.ID := CreditScore.ID existing,
                                       CreditScore.CreatedAt := CreditScore.CreatedAt existing,
                                       UpdateCount := UpdateCount existing + 1 \<rparr>;
                                   (err, score, st) = Update (dbFault env) (clock env) st score
                               in (map_option (Wrap ''failed to update score'') err, score, st))
                          | None \<Rightarrow>
                              (let score = score\<lparr>UpdateCount := 1\<rparr>;
                                   (err, score, st) = Create (dbFault env) (clock env) st score
                               in (map_option (Wrap ''failed to create score'') err, score, st)))
                   in case err of
                        Some e \<Rightarrow> (Inl e, st)
                      | None \<Rightarrow>
                          (let history =
                                 \<lparr> ScoreHistory.ID = 0,
                                   ScoreHistory.UserAddress = address,
                                   ScoreHistory.Score = CreditScore.Score score,
                                   ScoreHistory.Confidence = CreditScore.Confidence score,
                                   ScoreHistory.DataHash = CreditScore.DataHash score,
                                   Timestamp = clock env,
                                   ScoreHistory.CreatedAt = 0 \<rparr>;
                               (err, st) = CreateHistory (dbFault env) (clock env) st history
                           in (Inr score, st)))))"

text \<open>
  \<open>PublishScoreToBlockchain\<close>. \<open>UpdateCreditScore\<close> reads a field of its receiver first, so
  with a nil client the call panics, before any \<open>OracleUpdate\<close> is built.
\<close>

definition PublishScoreToBlockchain :: "Env \<Rightarrow> Store \<Rightarrow> string \<Rightarrow> error option \<times> Store" where
  "PublishScoreToBlockchain env st address =
     (case GetByAddress (dbFault env) st address of
        Inl err \<Rightarrow> (Some (Wrap ''failed to get score'' err), st)
      | Inr None \<Rightarrow> (Some (Err (''no score found for address '' @ address)), st)
      | Inr (Some score) \<Rightarrow>
          (case blockchainClient env of
             None \<Rightarrow>
               (Some (Panic ''invalid memory address or nil pointer dereference''), st)
           | Some UpdateCreditScore \<Rightarrow>
               (let (tx, err) = UpdateCreditScore address (CreditScore.Score score)
                                  (CreditScore.Confidence score) (CreditScore.DataHash score);
                    update =
                      \<lparr> OracleUpdate.ID = 0,
                        OracleUpdate.UserAddress = address,
                        OracleUpdate.Score = CreditScore.Score score,
                        OracleUpdate.Confidence = CreditScore.Confidence score,
                        OracleUpdate.DataHash = CreditScore.DataHash score,
                        TxHash = [],
                        BlockNumber = 0,
                        Status = ''pending'',
                        GasUsed = 0,
                        ErrorMessage = [],
                        RetryCount = 0,
                        OracleUpdate.CreatedAt = 0,
                        OracleUpdate.UpdatedAt = 0 \<rparr>;
                    update =
                      (case err of
                         Some e \<Rightarrow> update\<lparr>Status := ''failed'', ErrorMessage := Error e\<rparr>
                       | None \<Rightarrow>
                           (case tx of
                              Some hash \<Rightarrow> update\<lparr>TxHash := hash\<rparr>
                            | None \<Rightarrow> update));
                    (saveErr, st) = CreateOracleUpdate (dbFault env) (clock env) st update
                in case err of
                     Some e \<Rightarrow> (Some (Wrap ''failed to publish to blockchain'' e), st)
                   | None \<Rightarrow> (None, st))))"

section \<open>Enhanced on-chain aggregation (package aggregator)\<close>

record BlockscoutProvider =
  baseURL :: string
  chainName :: string

record EnhancedOnChainAggregator =
  blockscoutProvider :: "BlockscoutProvider option"
  useMockData :: bool
  preferBlockscout :: bool
  enableMultiChain :: bool
  targetChains :: "string list"

text \<open>
  What the data sources answer: \<open>providers.GetMultiChainAnalytics\<close> for an address and a
  chain list, \<open>BlockscoutProvider.GetAnalytics\<close>, \<open>BlockchainDataProvider.GetBlockchainSummary\<close>
  for an address and a chain id, and the direct RPC aggregator \<open>OnChainAggregator.FetchMetrics\<close>.
\<close>

record Sources =
  GetMultiChainAnalytics :: "string \<Rightarrow> string list \<Rightarrow> error + MultiChainAnalytics"
  GetAnalytics :: "BlockscoutProvider \<Rightarrow> string \<Rightarrow> error + BlockscoutAnalytics"
  GetBlockchainSummary :: "string \<Rightarrow> string \<Rightarrow> error + BlockchainSummary"
  ethClient_FetchMetrics :: "string \<Rightarrow> error + OnChainMetrics"

definition ConvertToBlockchainSummary :: "BlockscoutAnalytics \<Rightarrow> BlockchainSummary" where
  "ConvertToBlockchainSummary analytics =
     \<lparr> BlockchainSummary.Address = BlockscoutAnalytics.Address analytics,
       BlockchainSummary.WalletAge = WalletAgeDays analytics,
       FirstTransaction = FirstTransactionDate analytics,
       LastTransaction = LastTransactionDate analytics,
       BlockchainSummary.TotalTransactions = BlockscoutAnalytics.TotalTransactions analytics,
       TotalVolume = BlockscoutAnalytics.AverageTransactionSize analytics
                     * of_int (BlockscoutAnalytics.TotalTransactions analytics),
       BlockchainSummary.AverageTransactionSize =
         BlockscoutAnalytics.AverageTransactionSize analytics,
       DeFiActivities = [],
       LendingPositions = [],
       BlockchainSummary.LiquidationEvents = [],
       NFTHoldings = NFTCount analytics,
       TotalPortfolioValue = BalanceUSD analytics,
       BlockchainSummary.LastUpdated = BlockscoutAnalytics.LastUpdated analytics \<rparr>"

text \<open>The loop over the lending positions, with its two counters.\<close>

fun countBorrowing :: "LendingPosition list \<Rightarrow> int \<Rightarrow> int \<Rightarrow> int \<times> int" where
  "countBorrowing [] borrowCount repayCount = (borrowCount, repayCount)"
| "countBorrowing (pos # rest) borrowCount repayCount =
     (if BorrowedAmount pos > 0
      then countBorrowing rest (borrowCount + 1)
             (if HealthFactor pos > 1.5 then repayCount + 1 else repayCount)
      else countBorrowing rest borrowCount repayCount)"

definition EnhancedOnChainAggregator_FetchMetrics ::
  "EnhancedOnChainAggregator \<Rightarrow> Sources \<Rightarrow> time \<Rightarrow> string \<Rightarrow> error + OnChainMetrics" where
  "EnhancedOnChainAggregator_FetchMetrics a src now address =
     (let blockchainData = None;
          blockchainData =
            (if enableMultiChain a \<and> blockscoutProvider a \<noteq> None
             then (case GetMultiChainAnalytics src address (targetChains a) of
                     Inl err \<Rightarrow> blockchainData
                   | Inr multiChainData \<Rightarrow>
                       if MultiChainAnalytics.TotalTransactions multiChainData > 0
                       then Some (Summary multiChainData)
                       else blockchainData)
             else blockchainData);
          blockchainData =
            (if blockchainData = None \<and> preferBlockscout a
             then (case blockscoutProvider a of
                     None \<Rightarrow> blockchainData
                   | Some p \<Rightarrow>
                       (case GetAnalytics src p address of
                          Inl err \<Rightarrow> blockchainData
                        | Inr blockscoutData \<Rightarrow> Some (ConvertToBlockchainSummary blockscoutData)))
             else blockchainData);
          blockchainData =
            (if blockchainData = None
             then (case GetBlockchainSummary src address ''1'' of
                     Inl err \<Rightarrow> None
                   | Inr d \<Rightarrow> Some d)
             else blockchainData)
      in case blockchainData of
           None \<Rightarrow> ethClient_FetchMetrics src address
         | Some d \<Rightarrow>
             (let (borrowCount, repayCount) = countBorrowing (LendingPositions d) 0 0
              in Inr \<lparr> OnChainMetrics.ID = 0,
                       OnChainMetrics.UserAddress = address,
                       WalletAge = word_of_int (BlockchainSummary.WalletAge d),
                       TotalTransactions = word_of_int (BlockchainSummary.TotalTransactions d),
                       AvgTransactionValue = BlockchainSummary.AverageTransactionSize d,
                       DeFiInteractions = word_of_nat (length (DeFiActivities d)),
                       BorrowingHistory = word_of_int borrowCount,
                       RepaymentHistory = word_of_int repayCount,
                       LiquidationEvents =
                         word_of_nat (length (BlockchainSummary.LiquidationEvents d)),
                       CollateralValue = TotalPortfolioValue d,
                       LastActivity = LastTransaction d,
                       OnChainMetrics.CreatedAt = 0,
                       OnChainMetrics.UpdatedAt = now \<rparr>))"

section \<open>The specification's formulas and the inputs of the examples\<close>

text \<open>
  The specification's hybrid sub-score \<open>s\<close>: it starts at 0, adds 0.30 if repaidCount > 5 and
  incomeVerified, 0.20 if lastActivity is within 30 days, 0.25 if collateralValue > 1000 and
  incomeVerified, 0.25 if employmentStatus is full-time or self-employed, and is clamped to
  [0, 1].
\<close>

definition hybrid_spec_s :: "time \<Rightarrow> OnChainMetrics \<Rightarrow> OffChainMetrics \<Rightarrow> real" where
  "hybrid_spec_s now on off =
     max 0 (min 1
       ((if unat (RepaymentHistory on) > 5 \<and> IncomeVerified off then 0.30 else 0)
        + (if now - LastActivity on < 30 * 24 * 3600 * 1000000000 then 0.20 else 0)
        + (if CollateralValue on > 1000 \<and> IncomeVerified off then 0.25 else 0)
        + (if EmploymentStatus off \<in> {''full-time'', ''self-employed''} then 0.25 else 0)))"

text \<open>An off-chain snapshot whose traditional credit score, 100, lies below \<open>MinScore\<close>.\<close>

definition offChain_low_score :: OffChainMetrics where
  "offChain_low_score =
     \<lparr> OffChainMetrics.ID = 0, OffChainMetrics.UserAddress = [],
       TraditionalCreditScore = 100, BankAccountHistory = 0, IncomeVerified = False,
       IncomeLevel = [], EmploymentStatus = [], DebtToIncomeRatio = 0, DataSource = [],
       LastVerified = 0, OffChainMetrics.CreatedAt = 0, OffChainMetrics.UpdatedAt = 0 \<rparr>"

text \<open>
  A run of the service: the on-chain fetch answers with the metrics of the service tests'
  mock, both off-chain sub-fetches fail, the database has no fault, and one active score
  is stored for the address.
\<close>

definition test_onchain :: OnChainMetrics where
  "test_onchain =
     \<lparr> OnChainMetrics.ID = 0, OnChainMetrics.UserAddress = ''0xA'',
       WalletAge = 365, TotalTransactions = 100, AvgTransactionValue = 500,
       DeFiInteractions = 25, BorrowingHistory = 10, RepaymentHistory = 10,
       LiquidationEvents = 0, CollateralValue = 5000, LastActivity = 1000,
       OnChainMetrics.CreatedAt = 0, OnChainMetrics.UpdatedAt = 0 \<rparr>"

definition test_env :: Env where
  "test_env =
     \<lparr> clock = 1000,
       sha256json = (\<lambda>onChain offChain score now. ''digest''),
       dbFault = (\<lambda>op. None),
       onChainFetch = (\<lambda>address. Inr test_onchain),
       fetchCreditBureauData = (\<lambda>userID. Inl (Err ''credit bureau API request failed'')),
       fetchBankData = (\<lambda>userID. Inl (Err ''bank API request failed'')),
       blockchainClient = Some (\<lambda>address score confidence dataHash. (None, None)) \<rparr>"

definition test_row :: CreditScore where
  "test_row =
     \<lparr> CreditScore.ID = 7, CreditScore.UserAddress = ''0xA'', CreditScore.Score = 700,
       CreditScore.Confidence = 80, OnChainScore = 700, OffChainScore = 700,
       HybridScore = 700, CreditScore.DataHash = ''old'', LastUpdated = 10,
       NextUpdateDue = 20, UpdateCount = 3, IsActive = True,
       CreditScore.CreatedAt = 5, CreditScore.UpdatedAt = 10 \<rparr>"

definition test_store :: Store where
  "test_store = \<lparr> credit_scores = [test_row], score_history = [], on_chain_metrics = [],
                  off_chain_metrics = [], oracle_updates = [] \<rparr>"

definition empty_store :: Store where
  "empty_store = \<lparr> credit_scores = [], score_history = [], on_chain_metrics = [],
                   off_chain_metrics = [], oracle_updates = [] \<rparr>"

text \<open>A store whose row for the address has the largest update count a \<open>uint32\<close> holds.\<close>

definition max_count_row :: CreditScore where
  "max_count_row = test_row\<lparr>UpdateCount := 4294967295\<rparr>"

definition max_count_store :: Store where
  "max_count_store = test_store\<lparr>credit_scores := [max_count_row]\<rparr>"


text \<open>A store whose only row for the address has been deactivated.\<close>

definition inactive_row :: CreditScore where
  "inactive_row = test_row\<lparr>IsActive := False\<rparr>"

definition inactive_store :: Store where
  "inactive_store = test_store\<lparr>credit_scores := [inactive_row]\<rparr>"

text \<open>
  The specification's repayment ratio, repaid/borrowed, and what it means for one snapshot
  to be another with some of the monotone inputs raised: wallet age, transaction count,
  DeFi interactions, collateral value and repaid count do not decrease, the borrowed count
  is the same or the repayment ratio does not decrease, and the remaining inputs of the
  score are equal. For the off-chain snapshot only the bank history score may be raised.
\<close>

definition repaymentRatio :: "OnChainMetrics \<Rightarrow> real" where
  "repaymentRatio m = float_of_uint32 (RepaymentHistory m) / float_of_uint32 (BorrowingHistory m)"

definition nonNegativeAmounts :: "OnChainMetrics \<Rightarrow> bool" where
  "nonNegativeAmounts m = (0 \<le> AvgTransactionValue m \<and> 0 \<le> CollateralValue m)"

definition onChainRaised :: "OnChainMetrics \<Rightarrow> OnChainMetrics \<Rightarrow> bool" where
  "onChainRaised a b =
     (unat (WalletAge a) \<le> unat (WalletAge b)
      \<and> unat (TotalTransactions a) \<le> unat (TotalTransactions b)
      \<and> unat (DeFiInteractions a) \<le> unat (DeFiInteractions b)
      \<and> CollateralValue a \<le> CollateralValue b
      \<and> unat (RepaymentHistory a) \<le> unat (RepaymentHistory b)
      \<and> (BorrowingHistory b = BorrowingHistory a
           \<or> BorrowingHistory a \<noteq> 0 \<and> BorrowingHistory b \<noteq> 0
              \<and> repaymentRatio a \<le> repaymentRatio b)
      \<and> AvgTransactionValue b = AvgTransactionValue a
      \<and> LiquidationEvents b = LiquidationEvents a
      \<and> LastActivity b = LastActivity a)"

definition offChainRaised :: "OffChainMetrics \<Rightarrow> OffChainMetrics \<Rightarrow> bool" where
  "offChainRaised a b =
     (unat (BankAccountHistory a) \<le> unat (BankAccountHistory b)
      \<and> b = a\<lparr>BankAccountHistory := BankAccountHistory b\<rparr>)"

text \<open>
  Two on-chain snapshots that differ in the borrowed and repaid counts only, 6 of 7 against
  1 of 1, and an off-chain snapshot with verified income.
\<close>

definition ratio_lo :: OnChainMetrics where
  "ratio_lo = test_onchain\<lparr>BorrowingHistory := 7, RepaymentHistory := 6\<rparr>"

definition ratio_hi :: OnChainMetrics where
  "ratio_hi = test_onchain\<lparr>BorrowingHistory := 1, RepaymentHistory := 1\<rparr>"

definition verified_offchain :: OffChainMetrics where
  "verified_offchain = offChain_low_score\<lparr>TraditionalCreditScore := 0, IncomeVerified := True\<rparr>"

text \<open>An on-chain snapshot with a negative average transaction value.\<close>

definition negative_value :: OnChainMetrics where
  "negative_value = test_onchain\<lparr>WalletAge := 0, AvgTransactionValue := - 15000\<rparr>"

section \<open>Range of the composite score and of the confidence\<close>

lemma clampScore_range: "300 \<le> unat (clampScore w) \<and> unat (clampScore w) \<le> 850"
  by (simp add: clampScore_def MinScore_def MaxScore_def Let_def word_less_nat_alt)

lemma confidenceRaw_range:
  "0 \<le> confidenceRaw now onChain offChain \<and> confidenceRaw now onChain offChain \<le> 100"
  by (simp add: confidenceRaw_def Let_def split: option.splits)

lemma calculateConfidence_unat:
  "unat (calculateConfidence now onChain offChain) = nat (confidenceRaw now onChain offChain)"
proof -
  have "0 \<le> confidenceRaw now onChain offChain" "confidenceRaw now onChain offChain < 2 ^ 8"
    using confidenceRaw_range [of now onChain offChain] by auto
  then have "uint (word_of_int (confidenceRaw now onChain offChain) :: uint8)
             = confidenceRaw now onChain offChain"
    by (simp add: uint_word_of_int take_bit_int_eq_self)
  then show ?thesis
    unfolding calculateConfidence_def by (simp add: unat_eq_nat_uint)
qed

text \<open>
  C1. For every pair of inputs, either of which may be nil (\<open>None\<close>), the composite score
  returned by \<open>CalculateScore\<close> lies in [300, 850] and the confidence in [0, 100].
\<close>

theorem C1_composite_and_confidence_in_range:
  "300 \<le> unat (CreditScore.Score (CalculateScore H now onChain offChain))
   \<and> unat (CreditScore.Score (CalculateScore H now onChain offChain)) \<le> 850
   \<and> 0 \<le> unat (CreditScore.Confidence (CalculateScore H now onChain offChain))
   \<and> unat (CreditScore.Confidence (CalculateScore H now onChain offChain)) \<le> 100"
proof -
  have s: "CreditScore.Score (CalculateScore H now onChain offChain)
           = clampScore (compositeRaw (calculateOnChainScore onChain)
               (calculateOffChainScore offChain) (calculateHybridScore now onChain offChain))"
    by (simp add: CalculateScore_def Let_def)
  have c: "CreditScore.Confidence (CalculateScore H now onChain offChain)
           = calculateConfidence now onChain offChain"
    by (simp add: CalculateScore_def Let_def)
  have "unat (calculateConfidence now onChain offChain) \<le> 100"
    using calculateConfidence_unat [of now onChain offChain]
          confidenceRaw_range [of now onChain offChain] by (simp add: nat_le_iff)
  with s c clampScore_range show ?thesis by simp
qed


section \<open>Conversions between scores and numbers\<close>

lemma float_of_uint16_550: "float_of_uint16 (MaxScore - MinScore) = 550"
  by (simp add: float_of_uint16_def MaxScore_def MinScore_def)

lemma minScore_plus_unat:
  assumes "0 \<le> y" "y < 65236"
  shows "unat (MinScore + uint16_of_float y) = 300 + nat \<lfloor>y\<rfloor>"
proof -
  have k: "0 \<le> \<lfloor>y\<rfloor>" "\<lfloor>y\<rfloor> < 65236" using assms by (auto simp: floor_less_iff)
  have "unat (word_of_int \<lfloor>y\<rfloor> :: uint16) = nat \<lfloor>y\<rfloor>"
    using k by (simp add: unat_eq_nat_uint uint_word_of_int take_bit_int_eq_self)
  moreover have "unat (MinScore + (word_of_int \<lfloor>y\<rfloor> :: uint16))
     = unat MinScore + unat (word_of_int \<lfloor>y\<rfloor> :: uint16)"
  proof -
    have "nat \<lfloor>y\<rfloor> < 65236" using k by linarith
    then show ?thesis using calculation
      by (subst unat_add_lem [THEN iffD1]) (simp_all add: MinScore_def)
  qed
  ultimately show ?thesis
    using assms k by (simp add: uint16_of_float_def trunc_def MinScore_def)
qed

section \<open>The off-chain component below the minimum traditional score\<close>

lemma offChainRaw_low: "offChainRaw offChain_low_score * 550 = 131101 / 4"
  by (simp add: offChainRaw_def offChain_low_score_def Let_def MinScore_def MaxScore_def
      float_of_uint16_def float_of_uint8_def scoreIncome_def scoreDTI_def)

lemma calculateOffChainScore_low: "calculateOffChainScore (Some offChain_low_score) = 33075"
proof -
  have "calculateOffChainScore (Some offChain_low_score)
        = MinScore + uint16_of_float (131101 / 4)"
    by (simp only: calculateOffChainScore_def option.case float_of_uint16_550 offChainRaw_low)
  then show ?thesis
    by (simp add: uint16_of_float_def trunc_def MinScore_def)
qed

text \<open>
  C2. The claim is that every component score of the returned \<open>CreditScore\<close> lies in
  [300, 850], in particular the off-chain component for every traditional credit score
  above 0. For a traditional score of 100 the \<open>uint16\<close> subtraction \<open>100 - 300\<close> wraps to
  65336 before it is scaled, and the off-chain component of the returned score is 33075,
  whatever the on-chain snapshot is.
\<close>

theorem C2_offchain_component_exceeds_range:
  "unat (OffChainScore (CalculateScore H now onChain (Some offChain_low_score))) = 33075
   \<and> TraditionalCreditScore offChain_low_score > 0
   \<and> \<not> unat (OffChainScore (CalculateScore H now onChain (Some offChain_low_score))) \<le> 850"
proof -
  have "OffChainScore (CalculateScore H now onChain (Some offChain_low_score))
        = calculateOffChainScore (Some offChain_low_score)"
    by (simp add: CalculateScore_def Let_def)
  moreover have "TraditionalCreditScore offChain_low_score > 0"
    by (simp add: offChain_low_score_def)
  ultimately show ?thesis
    by (simp add: calculateOffChainScore_low)
qed

section \<open>The hybrid component\<close>

lemma hybridRaw_range: "0 \<le> hybridRaw now onChain offChain \<and> hybridRaw now onChain offChain \<le> 1"
  by (simp add: hybridRaw_def Let_def split: option.splits)

lemma hybridRaw_spec: "hybrid_spec_s now on off = hybridRaw now (Some on) (Some off)"
proof -
  have gt5: "(5 < RepaymentHistory on) = (5 < unat (RepaymentHistory on))"
    by (simp add: word_less_nat_alt)
  have "hybrid_spec_s now on off = max 0 (min 1 (hybridRaw now (Some on) (Some off)))"
    unfolding hybrid_spec_s_def hybridRaw_def Let_def Since_def Hour_def
    by (simp add: gt5)
  then show ?thesis using hybridRaw_range [of now "Some on" "Some off"] by simp
qed

lemma calculateHybridScore_unat:
  "unat (calculateHybridScore now onChain offChain)
   = 300 + nat \<lfloor>550 * hybridRaw now onChain offChain\<rfloor>"
proof -
  let ?s = "hybridRaw now onChain offChain"
  have r: "0 \<le> ?s" "?s \<le> 1" using hybridRaw_range [of now onChain offChain] by auto
  then have "0 \<le> ?s * 550" "?s * 550 < 65236" by auto
  then have "unat (MinScore + uint16_of_float (?s * 550)) = 300 + nat \<lfloor>?s * 550\<rfloor>"
    by (rule minScore_plus_unat)
  then show ?thesis using r
    by (simp add: calculateHybridScore_def Let_def float_of_uint16_550 mult.commute)
qed

text \<open>
  C5. The hybrid component of the returned score is 300 when either snapshot is nil; when
  both are present it is 300 plus the integer part of 550 times the specification's
  sub-score \<open>s\<close>.
\<close>

theorem C5_hybrid_component:
  "HybridScore (CalculateScore H now None offChain) = 300
   \<and> HybridScore (CalculateScore H now onChain None) = 300
   \<and> unat (HybridScore (CalculateScore H now (Some on) (Some off)))
       = 300 + nat \<lfloor>550 * hybrid_spec_s now on off\<rfloor>"
proof -
  have h: "HybridScore (CalculateScore H now a b) = calculateHybridScore now a b" for a b
    by (simp add: CalculateScore_def Let_def)
  have n1: "calculateHybridScore now None offChain = 300"
    by (simp add: calculateHybridScore_def hybridRaw_def uint16_of_float_def trunc_def
        MinScore_def)
  have n2: "calculateHybridScore now onChain None = 300"
    by (simp add: calculateHybridScore_def hybridRaw_def uint16_of_float_def trunc_def
        MinScore_def split: option.splits)
  show ?thesis
    by (simp add: h n1 n2 calculateHybridScore_unat hybridRaw_spec)
qed

section \<open>The repository and the coordination service\<close>

lemma find_address_None:
  "address \<notin> set (map CreditScore.UserAddress rows)
   \<Longrightarrow> find (\<lambda>r. CreditScore.UserAddress r = address \<and> IsActive r = True) rows = None"
  by (auto simp: find_None_iff)

lemma find_inactive_None:
  "\<forall>r \<in> set rows. CreditScore.UserAddress r = address \<longrightarrow> \<not> IsActive r
   \<Longrightarrow> find (\<lambda>r. CreditScore.UserAddress r = address \<and> IsActive r = True) rows = None"
  by (auto simp: find_None_iff)

lemma find_append_new:
  "find P rows = None \<Longrightarrow> P row \<Longrightarrow> find P (rows @ [row]) = Some row"
  by (induction rows) (auto split: if_splits)

lemma find_overwrite:
  "find P rows = Some existing \<Longrightarrow> P row \<Longrightarrow>
   find P (map (\<lambda>r. if key r = key existing then row else r) rows) = Some row"
  by (induction rows) (auto split: if_splits)

lemma find_Some_mem: "find P rows = Some x \<Longrightarrow> x \<in> set rows \<and> P x"
  by (induction rows) (auto split: if_splits)

lemma UpsertOnChainMetrics_tables:
  "UpsertOnChainMetrics f now st m = (e, m', st') \<Longrightarrow>
     credit_scores st' = credit_scores st \<and> score_history st' = score_history st
     \<and> oracle_updates st' = oracle_updates st"
  by (auto simp: UpsertOnChainMetrics_def Let_def split: option.splits if_splits)

lemma UpsertOffChainMetrics_tables:
  "UpsertOffChainMetrics f now st m = (e, m', st') \<Longrightarrow>
     credit_scores st' = credit_scores st \<and> score_history st' = score_history st
     \<and> oracle_updates st' = oracle_updates st"
  by (auto simp: UpsertOffChainMetrics_def Let_def split: option.splits if_splits)


lemma offchain_fetch_Inr:
  "\<exists>m. OffChainAggregator_FetchMetrics now c b address = Inr m"
  by (simp add: OffChainAggregator_FetchMetrics_def Let_def)

lemma CalculateAndUpdateScore_success:
  assumes "CalculateAndUpdateScore env st address userID = (Inr score, st')"
  obtains fetched e1 on st1 m e2 m' st2 existing st3 e4 where
    "onChainFetch env address = Inr fetched"
    "UpsertOnChainMetrics (dbFault env) (clock env) st fetched = (e1, on, st1)"
    "OffChainAggregator_FetchMetrics (clock env) (fetchCreditBureauData env userID)
       (fetchBankData env userID) address = Inr m"
    "UpsertOffChainMetrics (dbFault env) (clock env) st1 m = (e2, m', st2)"
    "GetByAddress (dbFault env) st2 address = Inr existing"
    "(case existing of
        Some ex \<Rightarrow>
          Update (dbFault env) (clock env) st2
            ((CalculateScore (sha256json env) (clock env) (Some on) (Some m'))
               \<lparr> CreditScore.UserAddress := address,
                 CreditScore.ID := CreditScore.ID ex,
                 CreditScore.CreatedAt := CreditScore.CreatedAt ex,
                 UpdateCount := UpdateCount ex + 1 \<rparr>)
      | None \<Rightarrow>
          Create (dbFault env) (clock env) st2
            ((CalculateScore (sha256json env) (clock env) (Some on) (Some m'))
               \<lparr> CreditScore.UserAddress := address, UpdateCount := 1 \<rparr>))
     = (None, score, st3)"
    "CreateHistory (dbFault env) (clock env) st3
       \<lparr> ScoreHistory.ID = 0,
         ScoreHistory.UserAddress = address,
         ScoreHistory.Score = CreditScore.Score score,
         ScoreHistory.Confidence = CreditScore.Confidence score,
         ScoreHistory.DataHash = CreditScore.DataHash score,
         Timestamp = clock env,
         ScoreHistory.CreatedAt = 0 \<rparr> = (e4, st')"
  using assms offchain_fetch_Inr [of "clock env" "fetchCreditBureauData env userID"
      "fetchBankData env userID" address]
  unfolding CalculateAndUpdateScore_def Let_def
  by (auto split: sum.splits prod.splits option.splits)


lemma GetByAddress_tables:
  "credit_scores st2 = credit_scores st \<Longrightarrow> GetByAddress f st2 a = GetByAddress f st a"
  by (simp add: GetByAddress_def cong: option.case_cong)

lemma Create_ok:
  assumes "Create f now st sc = (None, score, st')"
  shows "credit_scores st' = credit_scores st @ [score]
         \<and> score_history st' = score_history st
         \<and> oracle_updates st' = oracle_updates st
         \<and> UpdateCount score = UpdateCount sc
         \<and> CreditScore.UserAddress score = CreditScore.UserAddress sc
         \<and> IsActive score
         \<and> CreditScore.UserAddress sc \<notin> set (map CreditScore.UserAddress (credit_scores st))"
  using assms
  by (auto simp: Create_def Let_def split: option.splits if_splits)

lemma Update_ok:
  assumes "Update f now st sc = (None, score, st')"
    and "find (\<lambda>r. CreditScore.UserAddress r = CreditScore.UserAddress sc \<and> IsActive r = True)
           (credit_scores st) = Some ex"
    and "CreditScore.ID sc = CreditScore.ID ex"
  shows "score = sc\<lparr>CreditScore.UpdatedAt := now\<rparr>
         \<and> credit_scores st'
             = map (\<lambda>r. if CreditScore.ID r = CreditScore.ID ex then score else r)
                 (credit_scores st)
         \<and> score_history st' = score_history st
         \<and> oracle_updates st' = oracle_updates st"
proof -
  have mem: "ex \<in> set (credit_scores st)"
    and addr: "CreditScore.UserAddress ex = CreditScore.UserAddress sc"
    using find_Some_mem [OF assms(2)] by auto
  have "CreditScore.UserAddress ex \<in> CreditScore.UserAddress ` set (credit_scores st)"
    using mem by (rule imageI)
  then have dup: "CreditScore.UserAddress sc
                  \<in> set (map CreditScore.UserAddress (credit_scores st))"
    using addr by simp
  have "Create (\<lambda>_. None) now st (sc\<lparr>CreditScore.UpdatedAt := now\<rparr>) \<noteq> (None, score, st')"
    using dup by (simp add: Create_def)
  then show ?thesis
    using assms(1,3) by (auto simp: Update_def Let_def split: option.splits if_splits)
qed

lemma CreateHistory_ok:
  assumes "f OpCreateHistory = None" "ScoreHistory.ID h = 0"
    and "CreateHistory f now st h = (e, st')"
  shows "credit_scores st' = credit_scores st
         \<and> score_history st'
             = score_history st
               @ [h\<lparr> ScoreHistory.ID := next_id (map ScoreHistory.ID (score_history st)),
                     ScoreHistory.CreatedAt := auto_time now (ScoreHistory.CreatedAt h) \<rparr>]"
  using assms by (auto simp: CreateHistory_def Let_def)

lemma CalculateScore_IsActive: "IsActive (CalculateScore H now on off)"
  by (simp add: CalculateScore_def Let_def)

lemmas test_defs = test_env_def test_store_def test_row_def test_onchain_def

lemmas run_defs = CalculateAndUpdateScore_def UpsertOnChainMetrics_def
  UpsertOffChainMetrics_def OffChainAggregator_FetchMetrics_def GetByAddress_def
  Update_def Create_def CreateHistory_def Let_def next_id_def auto_time_def

lemma test_run_ok:
  "\<exists>score. fst (CalculateAndUpdateScore test_env test_store ''0xA'' ''user123'') = Inr score"
  by (simp add: run_defs test_defs)

text \<open>
  C4. The claim is that every successful call sets \<open>UpdateCount\<close> to exactly one more than
  the previous value. The field is a \<open>uint32\<close>: from the largest value, 4294967295, a
  successful call with no persistence failure returns and stores the count 0.
\<close>

theorem C4_counterexample:
  "GetByAddress (dbFault test_env) max_count_store ''0xA'' = Inr (Some max_count_row)
   \<and> UpdateCount max_count_row = 4294967295
   \<and> map_sum Error UpdateCount
        (fst (CalculateAndUpdateScore test_env max_count_store ''0xA'' ''user123'')) = Inr 0
   \<and> map UpdateCount
        (credit_scores (snd (CalculateAndUpdateScore test_env max_count_store ''0xA''
                               ''user123''))) = [0]"
  by (simp add: run_defs test_defs max_count_store_def max_count_row_def)

text \<open>
  C4, amended. When no persistence operation fails, a successful call of
  \<open>CalculateAndUpdateScore\<close> keeps the primary key and \<open>CreatedAt\<close> of the row that
  \<open>GetByAddress\<close> found and sets \<open>UpdateCount\<close> to the previous value plus one in \<open>uint32\<close>
  arithmetic, which is exactly one more whenever the previous value is below 4294967295; the
  table keeps its length. When no row was found it sets \<open>UpdateCount\<close> to 1 and appends the
  returned score to the table. In both cases the returned score is the row then stored for
  the address, and exactly one \<open>ScoreHistory\<close> entry is appended, for the returned score.
\<close>

theorem C4_update_lifecycle:
  assumes nofault: "\<forall>op. dbFault env op = None"
    and run: "CalculateAndUpdateScore env st address userID = (Inr score, st')"
  shows "(case GetByAddress (dbFault env) st address of
            Inl e \<Rightarrow> False
          | Inr None \<Rightarrow>
              UpdateCount score = 1
              \<and> credit_scores st' = credit_scores st @ [score]
          | Inr (Some existing) \<Rightarrow>
              CreditScore.ID score = CreditScore.ID existing
              \<and> CreditScore.CreatedAt score = CreditScore.CreatedAt existing
              \<and> UpdateCount score = UpdateCount existing + 1
              \<and> (unat (UpdateCount existing) < 4294967295 \<longrightarrow>
                   unat (UpdateCount score) = unat (UpdateCount existing) + 1)
              \<and> length (credit_scores st') = length (credit_scores st))
         \<and> GetByAddress (dbFault env) st' address = Inr (Some score)
         \<and> (\<exists>h. score_history st' = score_history st @ [h]
                \<and> ScoreHistory.UserAddress h = address
                \<and> ScoreHistory.Score h = CreditScore.Score score
                \<and> ScoreHistory.Confidence h = CreditScore.Confidence score
                \<and> ScoreHistory.DataHash h = CreditScore.DataHash score)"
proof -
  let ?P = "\<lambda>r. CreditScore.UserAddress r = address \<and> IsActive r = True"
  from run obtain fetched e1 on st1 m e2 m' st2 existing st3 e4 where
    u1: "UpsertOnChainMetrics (dbFault env) (clock env) st fetched = (e1, on, st1)"
    and u2: "UpsertOffChainMetrics (dbFault env) (clock env) st1 m = (e2, m', st2)"
    and g: "GetByAddress (dbFault env) st2 address = Inr existing"
    and w: "(case existing of
        Some ex \<Rightarrow>
          Update (dbFault env) (clock env) st2
            ((CalculateScore (sha256json env) (clock env) (Some on) (Some m'))
               \<lparr> CreditScore.UserAddress := address,
                 CreditScore.ID := CreditScore.ID ex,
                 CreditScore.CreatedAt := CreditScore.CreatedAt ex,
                 UpdateCount := UpdateCount ex + 1 \<rparr>)
      | None \<Rightarrow>
          Create (dbFault env) (clock env) st2
            ((CalculateScore (sha256json env) (clock env) (Some on) (Some m'))
               \<lparr> CreditScore.UserAddress := address, UpdateCount := 1 \<rparr>))
     = (None, score, st3)"
    and h: "CreateHistory (dbFault env) (clock env) st3
       \<lparr> ScoreHistory.ID = 0,
         ScoreHistory.UserAddress = address,
         ScoreHistory.Score = CreditScore.Score score,
         ScoreHistory.Confidence = CreditScore.Confidence score,
         ScoreHistory.DataHash = CreditScore.DataHash score,
         Timestamp = clock env,
         ScoreHistory.CreatedAt = 0 \<rparr> = (e4, st')"
    by (rule CalculateAndUpdateScore_success)
  have t2: "credit_scores st2 = credit_scores st" "score_history st2 = score_history st"
    using UpsertOnChainMetrics_tables [OF u1] UpsertOffChainMetrics_tables [OF u2] by auto
  have g0: "GetByAddress (dbFault env) st address = Inr existing"
    using g GetByAddress_tables [OF t2(1)] by simp
  have ex: "find ?P (credit_scores st) = existing"
    using g0 nofault by (simp add: GetByAddress_def)
  have hist: "credit_scores st' = credit_scores st3"
    "score_history st' = score_history st3
       @ [\<lparr> ScoreHistory.ID = next_id (map ScoreHistory.ID (score_history st3)),
            ScoreHistory.UserAddress = address,
            ScoreHistory.Score = CreditScore.Score score,
            ScoreHistory.Confidence = CreditScore.Confidence score,
            ScoreHistory.DataHash = CreditScore.DataHash score,
            Timestamp = clock env,
            ScoreHistory.CreatedAt = auto_time (clock env) 0 \<rparr>]"
    using CreateHistory_ok [OF _ _ h] nofault by auto
  show ?thesis
  proof (cases existing)
    case None
    with w have c: "Create (dbFault env) (clock env) st2
            ((CalculateScore (sha256json env) (clock env) (Some on) (Some m'))
               \<lparr> CreditScore.UserAddress := address, UpdateCount := 1 \<rparr>) = (None, score, st3)"
      by simp
    note k = Create_ok [OF c]
    have "find ?P (credit_scores st') = Some score"
      using k hist t2 ex None by (simp add: find_append_new)
    then show ?thesis
      using g0 None k hist t2 nofault by (simp add: GetByAddress_def)
  next
    case (Some e)
    with w have c: "Update (dbFault env) (clock env) st2
            ((CalculateScore (sha256json env) (clock env) (Some on) (Some m'))
               \<lparr> CreditScore.UserAddress := address,
                 CreditScore.ID := CreditScore.ID e,
                 CreditScore.CreatedAt := CreditScore.CreatedAt e,
                 UpdateCount := UpdateCount e + 1 \<rparr>) = (None, score, st3)"
      by simp
    have k: "score = ((CalculateScore (sha256json env) (clock env) (Some on) (Some m'))
               \<lparr> CreditScore.UserAddress := address,
                 CreditScore.ID := CreditScore.ID e,
                 CreditScore.CreatedAt := CreditScore.CreatedAt e,
                 UpdateCount := UpdateCount e + 1 \<rparr>)\<lparr>CreditScore.UpdatedAt := clock env\<rparr>"
      "credit_scores st3
             = map (\<lambda>r. if CreditScore.ID r = CreditScore.ID e then score else r)
                 (credit_scores st2)"
      "score_history st3 = score_history st2"
      using Update_ok [OF c] ex Some t2 by auto
    have p: "?P score" using k(1) by (simp add: CalculateScore_IsActive)
    have "find ?P (credit_scores st') = Some score"
      using find_overwrite [of ?P "credit_scores st" e score CreditScore.ID] ex Some p k(2) hist t2
      by simp
    moreover have "unat (UpdateCount e) < 4294967295 \<longrightarrow>
                   unat (UpdateCount e + 1) = unat (UpdateCount e) + 1"
      by (simp add: unat_word_ariths)
    ultimately show ?thesis
      using g0 Some k hist t2 nofault by (simp add: GetByAddress_def)
  qed
qed

lemma test_create_ok:
  "\<exists>score. fst (CalculateAndUpdateScore test_env empty_store ''0xB'' ''user123'') = Inr score"
  by (simp add: run_defs test_defs empty_store_def)

theorem C4_witness:
  "(\<exists>score st'. CalculateAndUpdateScore test_env test_store ''0xA'' ''user123'' = (Inr score, st')
      \<and> CreditScore.ID score = 7 \<and> CreditScore.CreatedAt score = 5 \<and> UpdateCount score = 4
      \<and> unat (UpdateCount score) = 4
      \<and> length (credit_scores st') = 1 \<and> length (score_history st') = 1)
   \<and> (\<exists>score st'. CalculateAndUpdateScore test_env empty_store ''0xB'' ''user123''
                      = (Inr score, st')
      \<and> UpdateCount score = 1 \<and> credit_scores st' = [score]
      \<and> length (score_history st') = 1)"
proof -
  have nf: "\<forall>op. dbFault test_env op = None" by (simp add: test_env_def)
  obtain score st' where
    run: "CalculateAndUpdateScore test_env test_store ''0xA'' ''user123'' = (Inr score, st')"
    using test_run_ok by (metis prod.collapse)
  have g: "GetByAddress (dbFault test_env) test_store ''0xA'' = Inr (Some test_row)"
    by (simp add: GetByAddress_def test_defs)
  have "length (score_history test_store) = 0" by (simp add: test_store_def)
  then have update: "CreditScore.ID score = 7 \<and> CreditScore.CreatedAt score = 5
      \<and> UpdateCount score = 4 \<and> unat (UpdateCount score) = 4
      \<and> length (credit_scores st') = 1 \<and> length (score_history st') = 1"
    using C4_update_lifecycle [OF nf run] g
    by (auto simp: test_row_def test_store_def)
  obtain score2 st2 where
    run2: "CalculateAndUpdateScore test_env empty_store ''0xB'' ''user123'' = (Inr score2, st2)"
    using test_create_ok by (metis prod.collapse)
  have g2: "GetByAddress (dbFault test_env) empty_store ''0xB'' = Inr None"
    by (simp add: GetByAddress_def test_env_def empty_store_def)
  have create: "UpdateCount score2 = 1 \<and> credit_scores st2 = [score2]
      \<and> length (score_history st2) = 1"
    using C4_update_lifecycle [OF nf run2] g2
    by (auto simp: empty_store_def)
  show ?thesis using run update run2 create by blast
qed

lemma UpsertOffChainMetrics_fields:
  "UpsertOffChainMetrics f now st m = (e, m', st') \<Longrightarrow>
     m' = m\<lparr> OffChainMetrics.ID := OffChainMetrics.ID m',
              OffChainMetrics.CreatedAt := OffChainMetrics.CreatedAt m',
              OffChainMetrics.UpdatedAt := OffChainMetrics.UpdatedAt m' \<rparr>"
  by (auto simp: UpsertOffChainMetrics_def Let_def split: option.splits if_splits)

lemma offChainRaw_upsert:
  "offChainRaw (m\<lparr> OffChainMetrics.ID := i, OffChainMetrics.CreatedAt := c,
                   OffChainMetrics.UpdatedAt := u \<rparr>) = offChainRaw m"
  by (simp add: offChainRaw_def)

lemma saved_OffChainScore:
  "Create f now st sc = (None, score, st') \<Longrightarrow> OffChainScore score = OffChainScore sc"
  "Update f now st sc = (None, score, st') \<Longrightarrow> OffChainScore score = OffChainScore sc"
  by (auto simp: Update_def Create_def Let_def split: option.splits if_splits)

lemma offchain_both_failed:
  "OffChainAggregator_FetchMetrics now (Inl e1) (Inl e2) address = Inr m
   \<Longrightarrow> offChainRaw m = 39 / 200"
  by (auto simp: OffChainAggregator_FetchMetrics_def offChainRaw_def Let_def
      float_of_uint8_def scoreIncome_def scoreDTI_def)

text \<open>
  C3. The claim is that a failing off-chain fetch leaves the off-chain component at 300.
  \<open>OffChainAggregator.FetchMetrics\<close> never returns an error: when both of its sub-fetches
  fail it returns a zero-valued snapshot, which is scored like any other, and every
  successful call of \<open>CalculateAndUpdateScore\<close> then returns the off-chain component 407.
\<close>

theorem C3_offchain_failure_scores_407:
  assumes run: "CalculateAndUpdateScore env st address userID = (Inr score, st')"
    and cb: "fetchCreditBureauData env userID = Inl e1"
    and bank: "fetchBankData env userID = Inl e2"
  shows "OffChainScore score = 407"
proof -
  from run obtain fetched e1' on st1 m e2' m' st2 existing st3 e4 where
    "onChainFetch env address = Inr fetched"
    and "UpsertOnChainMetrics (dbFault env) (clock env) st fetched = (e1', on, st1)"
    and f: "OffChainAggregator_FetchMetrics (clock env) (fetchCreditBureauData env userID)
       (fetchBankData env userID) address = Inr m"
    and u2: "UpsertOffChainMetrics (dbFault env) (clock env) st1 m = (e2', m', st2)"
    and "GetByAddress (dbFault env) st2 address = Inr existing"
    and w: "(case existing of
        Some ex \<Rightarrow>
          Update (dbFault env) (clock env) st2
            ((CalculateScore (sha256json env) (clock env) (Some on) (Some m'))
               \<lparr> CreditScore.UserAddress := address,
                 CreditScore.ID := CreditScore.ID ex,
                 CreditScore.CreatedAt := CreditScore.CreatedAt ex,
                 UpdateCount := UpdateCount ex + 1 \<rparr>)
      | None \<Rightarrow>
          Create (dbFault env) (clock env) st2
            ((CalculateScore (sha256json env) (clock env) (Some on) (Some m'))
               \<lparr> CreditScore.UserAddress := address, UpdateCount := 1 \<rparr>))
     = (None, score, st3)"
    and "CreateHistory (dbFault env) (clock env) st3
       \<lparr> ScoreHistory.ID = 0,
         ScoreHistory.UserAddress = address,
         ScoreHistory.Score = CreditScore.Score score,
         ScoreHistory.Confidence = CreditScore.Confidence score,
         ScoreHistory.DataHash = CreditScore.DataHash score,
         Timestamp = clock env,
         ScoreHistory.CreatedAt = 0 \<rparr> = (e4, st')"
    by (rule CalculateAndUpdateScore_success)
  have "offChainRaw m = 39 / 200"
    using f cb bank offchain_both_failed by simp
  moreover have "offChainRaw m' = offChainRaw m"
    using UpsertOffChainMetrics_fields [OF u2] offChainRaw_upsert by metis
  ultimately have r: "offChainRaw m' = 39 / 200" by simp
  have "calculateOffChainScore (Some m') = MinScore + uint16_of_float (39 / 200 * 550)"
    by (simp only: calculateOffChainScore_def option.case float_of_uint16_550 r)
  then have c: "calculateOffChainScore (Some m') = 407"
    by (simp add: uint16_of_float_def trunc_def MinScore_def)
  have "OffChainScore score
        = OffChainScore (CalculateScore (sha256json env) (clock env) (Some on) (Some m'))"
    using w saved_OffChainScore by (cases existing) auto
  then show ?thesis using c by (simp add: CalculateScore_def Let_def)
qed

theorem C3_witness:
  "\<exists>score st'. CalculateAndUpdateScore test_env test_store ''0xA'' ''user123'' = (Inr score, st')
      \<and> OffChainScore score = 407"
proof -
  obtain score st' where
    run: "CalculateAndUpdateScore test_env test_store ''0xA'' ''user123'' = (Inr score, st')"
    using test_run_ok by (metis prod.collapse)
  have "fetchCreditBureauData test_env ''user123'' = Inl (Err ''credit bureau API request failed'')"
    "fetchBankData test_env ''user123'' = Inl (Err ''bank API request failed'')"
    by (simp_all add: test_env_def)
  from C3_offchain_failure_scores_407 [OF run this] run show ?thesis by blast
qed

section \<open>Publication\<close>

text \<open>
  C6. For an address with no stored \<open>CreditScore\<close> row, \<open>PublishScoreToBlockchain\<close> leaves
  the store, and so the \<open>OracleUpdate\<close> table, unchanged, and unless the lookup itself
  fails it returns the error "no score found for address ...".
\<close>

theorem C6_publish_without_score:
  assumes "address \<notin> set (map CreditScore.UserAddress (credit_scores st))"
  shows "snd (PublishScoreToBlockchain env st address) = st
     \<and> oracle_updates (snd (PublishScoreToBlockchain env st address)) = oracle_updates st
     \<and> (dbFault env OpGetByAddress = None \<longrightarrow>
          fst (PublishScoreToBlockchain env st address)
          = Some (Err (''no score found for address '' @ address)))"
  using find_address_None [OF assms]
  by (simp add: PublishScoreToBlockchain_def GetByAddress_def split: option.splits)

theorem C6_witness:
  "snd (PublishScoreToBlockchain test_env empty_store ''0xNonExistent'') = empty_store
   \<and> fst (PublishScoreToBlockchain test_env empty_store ''0xNonExistent'')
       = Some (Err ''no score found for address 0xNonExistent'')"
  using C6_publish_without_score [of "''0xNonExistent''" empty_store test_env]
  by (simp add: empty_store_def test_env_def)






text \<open>
  Whether the row is stored is another matter, and two defects keep an attempt from being
  recorded. The table has a unique index on \<open>tx_hash\<close>, and every failed attempt and every
  attempt without a transaction carries the empty hash (\<open>OracleClient.UpdateCreditScore\<close> as
  written never returns a transaction): once one such row is stored, the insert of the next
  is refused and the error only logged. And \<open>routes.Setup\<close> passes a nil client when the chain
  settings are missing or the connection fails; the submission then panics before a row is
  built.
\<close>

lemma later_attempt_not_recorded:
  assumes "GetByAddress (dbFault env) st address = Inr (Some score)"
    and "blockchainClient env = Some UpdateCreditScore"
    and "UpdateCreditScore address (CreditScore.Score score)
           (CreditScore.Confidence score) (CreditScore.DataHash score) = (tx, err)"
    and "tx = None \<or> err \<noteq> None"
    and "[] \<in> set (map TxHash (oracle_updates st))"
  shows "snd (PublishScoreToBlockchain env st address) = st"
  using assms
  by (auto simp: PublishScoreToBlockchain_def Let_def CreateOracleUpdate_def
      split: option.splits)

lemma nil_client_panics:
  assumes "GetByAddress (dbFault env) st address = Inr (Some score)"
    and "blockchainClient env = None"
  shows "PublishScoreToBlockchain env st address
         = (Some (Panic ''invalid memory address or nil pointer dereference''), st)"
  using assms by (simp add: PublishScoreToBlockchain_def)

section \<open>Deactivated scores\<close>

lemma CreateHistory_credit_scores:
  "CreateHistory f now st h = (e, st') \<Longrightarrow> credit_scores st' = credit_scores st"
  by (auto simp: CreateHistory_def Let_def split: option.splits if_splits)

lemma Create_failed:
  "Create f now st sc = (Some e, score, st') \<Longrightarrow> st' = st"
  by (auto simp: Create_def Let_def split: option.splits if_splits)

text \<open>
  C10. \<open>GetByAddress\<close> only returns an active row. For an address all of whose rows are
  inactive it reports no record and no error, so \<open>PublishScoreToBlockchain\<close> answers "no
  score found" and leaves the store alone, and \<open>CalculateAndUpdateScore\<close> takes the create
  path: unless the on-chain fetch fails, it either fails in \<open>Create\<close> or returns a new row
  with \<open>UpdateCount\<close> 1 appended to the table; no stored row is overwritten.
\<close>

theorem C10_inactive_row_is_absent:
  assumes inactive: "\<forall>r \<in> set (credit_scores st).
                       CreditScore.UserAddress r = address \<longrightarrow> \<not> IsActive r"
    and lookup: "dbFault env OpGetByAddress = None"
  shows "GetByAddress (dbFault env) st address = Inr None
     \<and> PublishScoreToBlockchain env st address
         = (Some (Err (''no score found for address '' @ address)), st)
     \<and> ((\<exists>e. CalculateAndUpdateScore env st address userID
               = (Inl (Wrap ''failed to fetch on-chain metrics'' e), st))
         \<or> (\<exists>e st'. CalculateAndUpdateScore env st address userID
                      = (Inl (Wrap ''failed to create score'' e), st')
                    \<and> credit_scores st' = credit_scores st)
         \<or> (\<exists>score st'. CalculateAndUpdateScore env st address userID = (Inr score, st')
                    \<and> UpdateCount score = 1
                    \<and> credit_scores st' = credit_scores st @ [score]))"
proof -
  have none: "find (\<lambda>r. CreditScore.UserAddress r = address \<and> IsActive r = True)
                (credit_scores st) = None"
    using inactive by (rule find_inactive_None)
  then have g: "GetByAddress (dbFault env) st address = Inr None"
    using lookup by (simp add: GetByAddress_def)
  then have p: "PublishScoreToBlockchain env st address
         = (Some (Err (''no score found for address '' @ address)), st)"
    by (simp add: PublishScoreToBlockchain_def)
  have c: "(\<exists>e. CalculateAndUpdateScore env st address userID
               = (Inl (Wrap ''failed to fetch on-chain metrics'' e), st))
         \<or> (\<exists>e st'. CalculateAndUpdateScore env st address userID
                      = (Inl (Wrap ''failed to create score'' e), st')
                    \<and> credit_scores st' = credit_scores st)
         \<or> (\<exists>score st'. CalculateAndUpdateScore env st address userID = (Inr score, st')
                    \<and> UpdateCount score = 1
                    \<and> credit_scores st' = credit_scores st @ [score])"
  proof (cases "onChainFetch env address")
    case (Inl e)
    then show ?thesis by (simp add: CalculateAndUpdateScore_def)
  next
    case (Inr fetched)
    obtain e1 on st1 where
      u1: "UpsertOnChainMetrics (dbFault env) (clock env) st fetched = (e1, on, st1)"
      by (metis prod_cases3)
    obtain m where
      f: "OffChainAggregator_FetchMetrics (clock env) (fetchCreditBureauData env userID)
            (fetchBankData env userID) address = Inr m"
      using offchain_fetch_Inr by blast
    obtain e2 m' st2 where
      u2: "UpsertOffChainMetrics (dbFault env) (clock env) st1 m = (e2, m', st2)"
      by (metis prod_cases3)
    have t2: "credit_scores st2 = credit_scores st"
      using UpsertOnChainMetrics_tables [OF u1] UpsertOffChainMetrics_tables [OF u2] by simp
    have g2: "GetByAddress (dbFault env) st2 address = Inr None"
      using g GetByAddress_tables [OF t2] by simp
    let ?sc = "(CalculateScore (sha256json env) (clock env) (Some on) (Some m'))
                 \<lparr> CreditScore.UserAddress := address, UpdateCount := 1 \<rparr>"
    obtain e3 score st3 where
      cr: "Create (dbFault env) (clock env) st2 ?sc = (e3, score, st3)"
      by (metis prod_cases3)
    show ?thesis
    proof (cases e3)
      case None
      obtain e4 st4 where
        h: "CreateHistory (dbFault env) (clock env) st3
              \<lparr> ScoreHistory.ID = 0,
                ScoreHistory.UserAddress = address,
                ScoreHistory.Score = CreditScore.Score score,
                ScoreHistory.Confidence = CreditScore.Confidence score,
                ScoreHistory.DataHash = CreditScore.DataHash score,
                Timestamp = clock env,
                ScoreHistory.CreatedAt = 0 \<rparr> = (e4, st4)"
        by (metis prod.collapse)
      have run: "CalculateAndUpdateScore env st address userID = (Inr score, st4)"
        using Inr u1 f u2 g2 cr None h
        by (simp add: CalculateAndUpdateScore_def Let_def)
      have "UpdateCount score = 1" "credit_scores st4 = credit_scores st @ [score]"
        using Create_ok [OF cr [unfolded None]] CreateHistory_credit_scores [OF h] t2
        by simp_all
      with run show ?thesis by blast
    next
      case (Some e)
      have run: "CalculateAndUpdateScore env st address userID
                 = (Inl (Wrap ''failed to create score'' e), st3)"
        using Inr u1 f u2 g2 cr Some
        by (simp add: CalculateAndUpdateScore_def Let_def)
      have "credit_scores st3 = credit_scores st"
        using Create_failed [OF cr [unfolded Some]] t2 by simp
      with run show ?thesis by blast
    qed
  qed
  from g p c show ?thesis by blast
qed

theorem C10_witness:
  "GetByAddress (dbFault test_env) inactive_store ''0xA'' = Inr None
   \<and> PublishScoreToBlockchain test_env inactive_store ''0xA''
       = (Some (Err ''no score found for address 0xA''), inactive_store)
   \<and> fst (CalculateAndUpdateScore test_env inactive_store ''0xA'' ''user123'')
       = Inl (Wrap ''failed to create score''
                (Err ''UNIQUE constraint failed: credit_scores.user_address''))"
proof -
  have a: "\<forall>r \<in> set (credit_scores inactive_store).
             CreditScore.UserAddress r = ''0xA'' \<longrightarrow> \<not> IsActive r"
    by (simp add: inactive_store_def inactive_row_def)
  have b: "dbFault test_env OpGetByAddress = None" by (simp add: test_env_def)
  have c: "fst (CalculateAndUpdateScore test_env inactive_store ''0xA'' ''user123'')
       = Inl (Wrap ''failed to create score''
                (Err ''UNIQUE constraint failed: credit_scores.user_address''))"
    by (simp add: run_defs ErrDuplicate_def inactive_store_def inactive_row_def test_defs)
  show ?thesis
    using C10_inactive_row_is_absent [OF a b, of "''user123''"] c by simp
qed

section \<open>The global mock-data flag\<close>

text \<open>
  C9. For the same answers of the data sources, \<open>EnhancedOnChainAggregator.FetchMetrics\<close>
  returns the same result whatever the value of \<open>useMockData\<close>.
\<close>

theorem C9_mock_flag_ignored:
  "EnhancedOnChainAggregator_FetchMetrics (a\<lparr>useMockData := flag\<rparr>) src now address
   = EnhancedOnChainAggregator_FetchMetrics a src now address"
  by (simp add: EnhancedOnChainAggregator_FetchMetrics_def Let_def
      cong: if_cong option.case_cong sum.case_cong)



section \<open>Monotonicity of the composite score\<close>

lemmas engine_defs = CalculateScore_def calculateOnChainScore_def calculateOffChainScore_def
  calculateHybridScore_def compositeRaw_def clampScore_def onChainRaw_def offChainRaw_def
  hybridRaw_def scoreWalletAge_def scoreTransactionActivity_def scoreDeFiActivity_def
  scoreBorrowingHistory_def scoreCollateral_def scoreIncome_def scoreDTI_def
  uint16_of_float_def trunc_def float_of_uint16_def float_of_uint32_def float_of_uint8_def
  MinScore_def MaxScore_def OnChainWeight_def OffChainWeight_def HybridWeight_def
  Since_def Hour_def Let_def


lemma uint16_of_float_unat:
  assumes "0 \<le> y" "y < 65536"
  shows "unat (uint16_of_float y) = nat \<lfloor>y\<rfloor>"
proof -
  have k: "0 \<le> \<lfloor>y\<rfloor>" "\<lfloor>y\<rfloor> < 65536" using assms by (auto simp: floor_less_iff)
  then have "unat (word_of_int \<lfloor>y\<rfloor> :: uint16) = nat \<lfloor>y\<rfloor>"
    by (simp add: unat_eq_nat_uint uint_word_of_int take_bit_int_eq_self)
  then show ?thesis using assms k by (simp add: uint16_of_float_def trunc_def)
qed

lemma float_of_uint32_nonneg: "0 \<le> float_of_uint32 a"
  by (simp only: float_of_uint32_def of_nat_0_le_iff)

lemma float_of_uint32_mono: "unat a \<le> unat b \<Longrightarrow> float_of_uint32 a \<le> float_of_uint32 b"
  by (simp only: float_of_uint32_def of_nat_le_iff)

lemma float_of_uint32_ge_730: "(730 \<le> a) = (730 \<le> float_of_uint32 a)"
proof -
  have "(730 \<le> a) = (730 \<le> unat a)" by (simp add: word_le_nat_alt)
  also have "\<dots> = (real 730 \<le> real (unat a))" by (simp only: of_nat_le_iff)
  finally show ?thesis by (simp only: float_of_uint32_def) simp
qed

lemma scoreWalletAge_range: "0 \<le> scoreWalletAge a \<and> scoreWalletAge a \<le> 1"
  using float_of_uint32_nonneg [of a]
  by (simp add: scoreWalletAge_def float_of_uint32_ge_730)

lemma scoreWalletAge_mono:
  "unat a \<le> unat b \<Longrightarrow> scoreWalletAge a \<le> scoreWalletAge b"
  using float_of_uint32_mono [of a b]
  by (simp add: scoreWalletAge_def float_of_uint32_ge_730)

lemma scoreTransactionActivity_range:
  "0 \<le> v \<Longrightarrow> 0 \<le> scoreTransactionActivity t v \<and> scoreTransactionActivity t v \<le> 1"
  using float_of_uint32_nonneg [of t]
  by (simp add: scoreTransactionActivity_def Let_def min_def)

lemma scoreTransactionActivity_mono:
  "unat a \<le> unat b \<Longrightarrow> scoreTransactionActivity a v \<le> scoreTransactionActivity b v"
  using float_of_uint32_mono [of a b]
  by (simp add: scoreTransactionActivity_def Let_def min_def)

lemma scoreDeFiActivity_range: "0 \<le> scoreDeFiActivity a \<and> scoreDeFiActivity a \<le> 1"
  using float_of_uint32_nonneg [of a]
  by (simp add: scoreDeFiActivity_def min_def)

lemma scoreDeFiActivity_mono:
  "unat a \<le> unat b \<Longrightarrow> scoreDeFiActivity a \<le> scoreDeFiActivity b"
  using float_of_uint32_mono [of a b]
  by (simp add: scoreDeFiActivity_def min_def)

lemma scoreCollateral_range:
  "0 \<le> v \<Longrightarrow> 0 \<le> scoreCollateral v \<and> scoreCollateral v \<le> 1"
  by (simp add: scoreCollateral_def min_def)

lemma scoreCollateral_mono: "v \<le> w \<Longrightarrow> scoreCollateral v \<le> scoreCollateral w"
  by (simp add: scoreCollateral_def min_def)

lemma scoreBorrowingHistory_range:
  "0 \<le> scoreBorrowingHistory b r l \<and> scoreBorrowingHistory b r l \<le> 1"
  by (simp add: scoreBorrowingHistory_def Let_def)

lemma scoreBorrowingHistory_ratio:
  "b \<noteq> 0 \<Longrightarrow> scoreBorrowingHistory b r l
     = min 1 (max 0 (float_of_uint32 r / float_of_uint32 b - float_of_uint32 l * 0.2))"
  by (simp add: scoreBorrowingHistory_def Let_def min_def max_def)

lemma clamp01_mono:
  "(x::real) \<le> y \<Longrightarrow> min 1 (max 0 (x - c)) \<le> min 1 (max 0 (y - c))"
  by (simp add: min_def max_def)

lemma scoreBorrowingHistory_mono:
  assumes "unat r1 \<le> unat r2"
    and "b2 = b1 \<or> b1 \<noteq> 0 \<and> b2 \<noteq> 0
           \<and> float_of_uint32 r1 / float_of_uint32 b1 \<le> float_of_uint32 r2 / float_of_uint32 b2"
  shows "scoreBorrowingHistory b1 r1 l \<le> scoreBorrowingHistory b2 r2 l"
proof (cases "b2 = b1")
  case True
  show ?thesis
  proof (cases "b1 = 0")
    case z: True
    with True show ?thesis by (simp add: scoreBorrowingHistory_def)
  next
    case False
    have "float_of_uint32 r1 / float_of_uint32 b1 \<le> float_of_uint32 r2 / float_of_uint32 b1"
      using float_of_uint32_mono [OF assms(1)] float_of_uint32_nonneg [of b1]
      by (rule divide_right_mono)
    then show ?thesis
      unfolding True scoreBorrowingHistory_ratio [OF False] by (rule clamp01_mono)
  qed
next
  case False
  with assms(2) have p: "b1 \<noteq> 0" "b2 \<noteq> 0"
    "float_of_uint32 r1 / float_of_uint32 b1 \<le> float_of_uint32 r2 / float_of_uint32 b2"
    by auto
  show ?thesis
    unfolding scoreBorrowingHistory_ratio [OF p(1)] scoreBorrowingHistory_ratio [OF p(2)]
    using p(3) by (rule clamp01_mono)
qed


lemma onChainRaw_range:
  assumes "nonNegativeAmounts m"
  shows "0 \<le> onChainRaw m \<and> onChainRaw m \<le> 1"
  using scoreWalletAge_range [of "WalletAge m"]
    scoreTransactionActivity_range [of "AvgTransactionValue m" "TotalTransactions m"]
    scoreDeFiActivity_range [of "DeFiInteractions m"]
    scoreBorrowingHistory_range [of "BorrowingHistory m" "RepaymentHistory m"
      "LiquidationEvents m"]
    scoreCollateral_range [of "CollateralValue m"] assms
  unfolding onChainRaw_def Let_def nonNegativeAmounts_def
  by auto

lemma onChainRaw_mono:
  assumes "onChainRaised a b"
  shows "onChainRaw a \<le> onChainRaw b"
proof -
  have w: "scoreWalletAge (WalletAge a) \<le> scoreWalletAge (WalletAge b)"
    using assms by (simp add: onChainRaised_def scoreWalletAge_mono)
  have t: "scoreTransactionActivity (TotalTransactions a) (AvgTransactionValue a)
           \<le> scoreTransactionActivity (TotalTransactions b) (AvgTransactionValue b)"
    using assms by (simp add: onChainRaised_def scoreTransactionActivity_mono)
  have d: "scoreDeFiActivity (DeFiInteractions a) \<le> scoreDeFiActivity (DeFiInteractions b)"
    using assms by (simp add: onChainRaised_def scoreDeFiActivity_mono)
  have c: "scoreCollateral (CollateralValue a) \<le> scoreCollateral (CollateralValue b)"
    using assms by (simp add: onChainRaised_def scoreCollateral_mono)
  have "scoreBorrowingHistory (BorrowingHistory a) (RepaymentHistory a) (LiquidationEvents a)
        \<le> scoreBorrowingHistory (BorrowingHistory b) (RepaymentHistory b)
             (LiquidationEvents a)"
    using assms
    by (intro scoreBorrowingHistory_mono) (auto simp: onChainRaised_def repaymentRatio_def)
  then have h: "scoreBorrowingHistory (BorrowingHistory a) (RepaymentHistory a)
                  (LiquidationEvents a)
        \<le> scoreBorrowingHistory (BorrowingHistory b) (RepaymentHistory b)
             (LiquidationEvents b)"
    using assms by (simp add: onChainRaised_def)
  show ?thesis
    using w t d c h unfolding onChainRaw_def Let_def by auto
qed

lemma calculateOnChainScore_unat:
  assumes "nonNegativeAmounts m"
  shows "unat (calculateOnChainScore (Some m)) = 300 + nat \<lfloor>onChainRaw m * 550\<rfloor>"
proof -
  have "0 \<le> onChainRaw m * 550" "onChainRaw m * 550 < 65236"
    using onChainRaw_range [OF assms] by auto
  then have "unat (MinScore + uint16_of_float (onChainRaw m * 550))
             = 300 + nat \<lfloor>onChainRaw m * 550\<rfloor>"
    by (rule minScore_plus_unat)
  then show ?thesis
    by (simp only: calculateOnChainScore_def option.case float_of_uint16_550)
qed

lemma float_of_uint16_range: "0 \<le> float_of_uint16 w \<and> float_of_uint16 w \<le> 65535"
proof -
  have "unat w < 2 ^ 16" using unsigned_less [of w] by simp
  then have "unat w \<le> 65535" by simp
  then have "real (unat w) \<le> real 65535" by (simp only: of_nat_le_iff)
  then show ?thesis by (simp only: float_of_uint16_def of_nat_0_le_iff) simp
qed

lemma float_of_uint8_range: "0 \<le> float_of_uint8 w \<and> float_of_uint8 w \<le> 255"
proof -
  have "unat w < 2 ^ 8" using unsigned_less [of w] by simp
  then have "unat w \<le> 255" by simp
  then have "real (unat w) \<le> real 255" by (simp only: of_nat_le_iff)
  then show ?thesis by (simp only: float_of_uint8_def of_nat_0_le_iff) simp
qed

lemma float_of_uint8_mono: "unat a \<le> unat b \<Longrightarrow> float_of_uint8 a \<le> float_of_uint8 b"
  by (simp only: float_of_uint8_def of_nat_le_iff)

lemma scoreIncome_range: "0 \<le> scoreIncome v l \<and> scoreIncome v l \<le> 1"
  by (simp add: scoreIncome_def)

lemma scoreDTI_range: "0 \<le> scoreDTI r \<and> scoreDTI r \<le> 1"
  by (simp add: scoreDTI_def)

lemma offChainRaw_range: "0 \<le> offChainRaw m \<and> offChainRaw m * 550 \<le> 33213"
  using float_of_uint16_range [of "TraditionalCreditScore m - MinScore"]
    float_of_uint8_range [of "BankAccountHistory m"]
    scoreIncome_range [of "IncomeVerified m" "IncomeLevel m"]
    scoreDTI_range [of "DebtToIncomeRatio m"]
  unfolding offChainRaw_def Let_def float_of_uint16_550
  by auto

lemma offChainRaw_bank:
  "float_of_uint8 (BankAccountHistory a) \<le> float_of_uint8 v
   \<Longrightarrow> offChainRaw a \<le> offChainRaw (a\<lparr>BankAccountHistory := v\<rparr>)"
  by (simp add: offChainRaw_def Let_def)

lemma offChainRaw_mono:
  assumes "offChainRaised a b"
  shows "offChainRaw a \<le> offChainRaw b"
proof -
  have "float_of_uint8 (BankAccountHistory a) \<le> float_of_uint8 (BankAccountHistory b)"
    using assms by (simp add: offChainRaised_def float_of_uint8_mono)
  then have "offChainRaw a \<le> offChainRaw (a\<lparr>BankAccountHistory := BankAccountHistory b\<rparr>)"
    by (rule offChainRaw_bank)
  moreover have "a\<lparr>BankAccountHistory := BankAccountHistory b\<rparr> = b"
    using assms by (simp add: offChainRaised_def)
  ultimately show ?thesis by simp
qed

lemma calculateOffChainScore_unat:
  "unat (calculateOffChainScore (Some m)) = 300 + nat \<lfloor>offChainRaw m * 550\<rfloor>"
proof -
  have "0 \<le> offChainRaw m * 550" "offChainRaw m * 550 < 65236"
    using offChainRaw_range [of m] by auto
  then have "unat (MinScore + uint16_of_float (offChainRaw m * 550))
             = 300 + nat \<lfloor>offChainRaw m * 550\<rfloor>"
    by (rule minScore_plus_unat)
  then show ?thesis
    by (simp only: calculateOffChainScore_def option.case float_of_uint16_550)
qed


lemma hybridRaw_both:
  "hybridRaw now (Some a) (Some f)
   = (if RepaymentHistory a > 5 \<and> IncomeVerified f then 0.30 else 0)
     + (if Since now (LastActivity a) < 30 * 24 * Hour then 0.20 else 0)
     + (if CollateralValue a > 1000 \<and> IncomeVerified f then 0.25 else 0)
     + (if EmploymentStatus f = ''full-time'' \<or> EmploymentStatus f = ''self-employed''
        then 0.25 else 0)"
  by (simp add: hybridRaw_def Let_def)

lemma hybridRaw_mono:
  assumes "rel_option onChainRaised on1 on2" "rel_option offChainRaised off1 off2"
  shows "hybridRaw now on1 off1 \<le> hybridRaw now on2 off2"
proof (cases on1)
  case None
  then have "on2 = None" using assms(1) by (cases on2) auto
  with None show ?thesis by (simp add: hybridRaw_def)
next
  case a: (Some a)
  then obtain b where b: "on2 = Some b" and ab: "onChainRaised a b"
    using assms(1) by (cases on2) auto
  show ?thesis
  proof (cases off1)
    case None
    then have "off2 = None" using assms(2) by (cases off2) auto
    with None a b show ?thesis by (simp add: hybridRaw_def)
  next
    case f: (Some f)
    then obtain g where g: "off2 = Some g" and fg: "offChainRaised f g"
      using assms(2) by (cases off2) auto
    have g': "g = f\<lparr>BankAccountHistory := BankAccountHistory g\<rparr>"
      using fg by (simp add: offChainRaised_def)
    have v: "IncomeVerified g = IncomeVerified f" "EmploymentStatus g = EmploymentStatus f"
      by (subst g', simp)+
    have r: "5 < RepaymentHistory a \<longrightarrow> 5 < RepaymentHistory b"
      using ab by (simp add: onChainRaised_def word_less_nat_alt)
    have c: "CollateralValue a \<le> CollateralValue b" "LastActivity b = LastActivity a"
      using ab by (simp_all add: onChainRaised_def)
    have t1: "(if RepaymentHistory a > 5 \<and> IncomeVerified f then 0.30 else 0)
              \<le> (if RepaymentHistory b > 5 \<and> IncomeVerified g then 0.30 else (0::real))"
      using r v by simp
    have t3: "(if CollateralValue a > 1000 \<and> IncomeVerified f then 0.25 else 0)
              \<le> (if CollateralValue b > 1000 \<and> IncomeVerified g then 0.25 else (0::real))"
      using c v by simp
    show ?thesis
      unfolding a b f g hybridRaw_both c(2) v(2) using t1 t3 by linarith
  qed
qed

lemma compositeRaw_unat:
  assumes "unat a \<le> 850" "unat b \<le> 33513" "unat c \<le> 850"
  shows "unat (compositeRaw a b c)
         = nat \<lfloor>float_of_uint16 a * 0.40 + float_of_uint16 b * 0.40
                 + float_of_uint16 c * 0.20\<rfloor>"
proof -
  have "real (unat a) \<le> real 850" "real (unat b) \<le> real 33513" "real (unat c) \<le> real 850"
    using assms by (simp_all only: of_nat_le_iff)
  then have u: "float_of_uint16 a \<le> 850" "float_of_uint16 b \<le> 33513"
    "float_of_uint16 c \<le> 850"
    by (simp_all add: float_of_uint16_def)
  have l: "0 \<le> float_of_uint16 a" "0 \<le> float_of_uint16 b" "0 \<le> float_of_uint16 c"
    using float_of_uint16_range by auto
  let ?y = "float_of_uint16 a * 0.40 + float_of_uint16 b * 0.40 + float_of_uint16 c * 0.20"
  have "0 \<le> ?y" "?y < 65536" using u l by auto
  then have "unat (uint16_of_float ?y) = nat \<lfloor>?y\<rfloor>" by (rule uint16_of_float_unat)
  then show ?thesis
    by (simp only: compositeRaw_def OnChainWeight_def OffChainWeight_def HybridWeight_def)
qed

lemma float_of_uint16_mono: "unat a \<le> unat b \<Longrightarrow> float_of_uint16 a \<le> float_of_uint16 b"
  by (simp only: float_of_uint16_def of_nat_le_iff)

lemma compositeRaw_mono:
  assumes "unat a1 \<le> unat a2" "unat b1 \<le> unat b2" "unat c1 \<le> unat c2"
    and "unat a2 \<le> 850" "unat b2 \<le> 33513" "unat c2 \<le> 850"
  shows "unat (compositeRaw a1 b1 c1) \<le> unat (compositeRaw a2 b2 c2)"
proof -
  have 1: "unat (compositeRaw a1 b1 c1)
           = nat \<lfloor>float_of_uint16 a1 * 0.40 + float_of_uint16 b1 * 0.40
                   + float_of_uint16 c1 * 0.20\<rfloor>"
    using assms by (intro compositeRaw_unat) auto
  have 2: "unat (compositeRaw a2 b2 c2)
           = nat \<lfloor>float_of_uint16 a2 * 0.40 + float_of_uint16 b2 * 0.40
                   + float_of_uint16 c2 * 0.20\<rfloor>"
    using assms by (intro compositeRaw_unat) auto
  have "float_of_uint16 a1 * 0.40 + float_of_uint16 b1 * 0.40 + float_of_uint16 c1 * 0.20
        \<le> float_of_uint16 a2 * 0.40 + float_of_uint16 b2 * 0.40 + float_of_uint16 c2 * 0.20"
    using float_of_uint16_mono [OF assms(1)] float_of_uint16_mono [OF assms(2)]
      float_of_uint16_mono [OF assms(3)] by auto
  then show ?thesis
    unfolding 1 2 by (intro nat_mono floor_mono)
qed

lemma clampScore_mono: "unat x \<le> unat y \<Longrightarrow> clampScore x \<le> clampScore y"
  by (simp add: clampScore_def Let_def MinScore_def MaxScore_def word_less_nat_alt
      word_le_nat_alt)


lemma floor_bounds:
  assumes "(x::real) \<le> y" "y \<le> of_int k"
  shows "nat \<lfloor>x\<rfloor> \<le> nat \<lfloor>y\<rfloor> \<and> nat \<lfloor>y\<rfloor> \<le> nat k"
proof -
  have "\<lfloor>y\<rfloor> \<le> \<lfloor>of_int k :: real\<rfloor>" using assms(2) by (rule floor_mono)
  then have "\<lfloor>y\<rfloor> \<le> k" by simp
  then show ?thesis using floor_mono [OF assms(1)] by (simp add: nat_mono)
qed

lemma onChainRaised_nonNegative:
  "nonNegativeAmounts a \<Longrightarrow> onChainRaised a b \<Longrightarrow> nonNegativeAmounts b"
  by (auto simp: nonNegativeAmounts_def onChainRaised_def)

lemma calculateOnChainScore_mono:
  assumes "rel_option (\<lambda>a b. nonNegativeAmounts a \<and> onChainRaised a b) on1 on2"
  shows "unat (calculateOnChainScore on1) \<le> unat (calculateOnChainScore on2)
         \<and> unat (calculateOnChainScore on2) \<le> 850"
proof (cases on1)
  case None
  then have "on2 = None" using assms by (cases on2) auto
  with None show ?thesis by (simp add: calculateOnChainScore_def MinScore_def)
next
  case a: (Some a)
  then obtain b where b: "on2 = Some b" and na: "nonNegativeAmounts a"
    and ab: "onChainRaised a b"
    using assms by (cases on2) auto
  have nb: "nonNegativeAmounts b" using na ab by (rule onChainRaised_nonNegative)
  have "onChainRaw a * 550 \<le> onChainRaw b * 550" "onChainRaw b * 550 \<le> 550"
    using onChainRaw_mono [OF ab] onChainRaw_range [OF nb] by auto
  then have "nat \<lfloor>onChainRaw a * 550\<rfloor> \<le> nat \<lfloor>onChainRaw b * 550\<rfloor>
             \<and> nat \<lfloor>onChainRaw b * 550\<rfloor> \<le> nat 550"
    by (intro floor_bounds) simp_all
  then show ?thesis
    unfolding a b calculateOnChainScore_unat [OF na] calculateOnChainScore_unat [OF nb]
    by simp
qed

lemma calculateOffChainScore_mono:
  assumes "rel_option offChainRaised off1 off2"
  shows "unat (calculateOffChainScore off1) \<le> unat (calculateOffChainScore off2)
         \<and> unat (calculateOffChainScore off2) \<le> 33513"
proof (cases off1)
  case None
  then have "off2 = None" using assms by (cases off2) auto
  with None show ?thesis by (simp add: calculateOffChainScore_def MinScore_def)
next
  case f: (Some f)
  then obtain g where g: "off2 = Some g" and fg: "offChainRaised f g"
    using assms by (cases off2) auto
  have "offChainRaw f * 550 \<le> offChainRaw g * 550" "offChainRaw g * 550 \<le> 33213"
    using offChainRaw_mono [OF fg] offChainRaw_range [of g] by auto
  then have "nat \<lfloor>offChainRaw f * 550\<rfloor> \<le> nat \<lfloor>offChainRaw g * 550\<rfloor>
             \<and> nat \<lfloor>offChainRaw g * 550\<rfloor> \<le> nat 33213"
    by (intro floor_bounds) simp_all
  then show ?thesis
    unfolding f g calculateOffChainScore_unat by simp
qed

lemma calculateHybridScore_mono:
  assumes "rel_option onChainRaised on1 on2" "rel_option offChainRaised off1 off2"
  shows "unat (calculateHybridScore now on1 off1) \<le> unat (calculateHybridScore now on2 off2)
         \<and> unat (calculateHybridScore now on2 off2) \<le> 850"
proof -
  have "550 * hybridRaw now on1 off1 \<le> 550 * hybridRaw now on2 off2"
    "550 * hybridRaw now on2 off2 \<le> 550"
    using hybridRaw_mono [OF assms, of now] hybridRaw_range [of now on2 off2] by auto
  then have "nat \<lfloor>550 * hybridRaw now on1 off1\<rfloor> \<le> nat \<lfloor>550 * hybridRaw now on2 off2\<rfloor>
             \<and> nat \<lfloor>550 * hybridRaw now on2 off2\<rfloor> \<le> nat 550"
    by (intro floor_bounds) simp_all
  then show ?thesis
    unfolding calculateHybridScore_unat by simp
qed

text \<open>
  C8, amended. For snapshots whose average transaction value and collateral value are not
  negative, the composite score does not decrease when wallet age, transaction count, DeFi
  interactions, collateral value, repaid count and bank history score are raised, alone or
  together, with the borrowed count fixed; nor when the borrowed count changes too, as long
  as it stays positive and the repayment ratio does not decrease. All other inputs are held
  fixed, and a snapshot that is nil stays nil.
\<close>

theorem C8_composite_monotone:
  assumes on: "rel_option (\<lambda>a b. nonNegativeAmounts a \<and> onChainRaised a b) on1 on2"
    and off: "rel_option offChainRaised off1 off2"
  shows "CreditScore.Score (CalculateScore H now on1 off1)
         \<le> CreditScore.Score (CalculateScore H now on2 off2)"
proof -
  have on': "rel_option onChainRaised on1 on2"
    using on by (cases on1; cases on2) auto
  have "unat (compositeRaw (calculateOnChainScore on1) (calculateOffChainScore off1)
                (calculateHybridScore now on1 off1))
        \<le> unat (compositeRaw (calculateOnChainScore on2) (calculateOffChainScore off2)
                (calculateHybridScore now on2 off2))"
    using calculateOnChainScore_mono [OF on] calculateOffChainScore_mono [OF off]
      calculateHybridScore_mono [OF on' off, of now]
    by (intro compositeRaw_mono) auto
  then show ?thesis
    by (simp add: CalculateScore_def Let_def clampScore_mono)
qed

theorem C8_witness:
  "CreditScore.Score (CalculateScore (sha256json test_env) 1000 (Some test_onchain)
      (Some verified_offchain))
   \<le> CreditScore.Score (CalculateScore (sha256json test_env) 1000
        (Some (test_onchain\<lparr>WalletAge := 730, RepaymentHistory := 12\<rparr>))
        (Some (verified_offchain\<lparr>BankAccountHistory := 90\<rparr>)))"
proof -
  have a: "rel_option (\<lambda>a b. nonNegativeAmounts a \<and> onChainRaised a b) (Some test_onchain)
             (Some (test_onchain\<lparr>WalletAge := 730, RepaymentHistory := 12\<rparr>))"
    by (simp add: nonNegativeAmounts_def onChainRaised_def test_onchain_def)
  have b: "rel_option offChainRaised (Some verified_offchain)
             (Some (verified_offchain\<lparr>BankAccountHistory := 90\<rparr>))"
    by (simp add: offChainRaised_def verified_offchain_def offChain_low_score_def)
  show ?thesis by (rule C8_composite_monotone [OF a b])
qed

text \<open>
  The restriction to amounts that are not negative is needed in this model: a negative
  weighted sum is converted to \<open>uint16\<close> by wrapping, and raising the wallet age from 0 to
  730 days then lowers the composite score from 850 to 300.
\<close>

lemma negative_amount_not_monotone:
  "CreditScore.Score (CalculateScore (sha256json test_env) 1000 (Some negative_value) None) = 850
   \<and> CreditScore.Score (CalculateScore (sha256json test_env) 1000
         (Some (negative_value\<lparr>WalletAge := 730\<rparr>)) None) = 300"
  by (simp add: engine_defs negative_value_def test_onchain_def)

text \<open>
  C8. The claim is that the composite score is monotone in the repayment ratio. With every
  other input fixed, repaying 1 loan of 1 has the higher ratio but the lower score than
  repaying 6 of 7: the hybrid component rewards a repaid count above 5, not the ratio.
\<close>

theorem C8_counterexample:
  "ratio_hi = ratio_lo\<lparr>BorrowingHistory := 1, RepaymentHistory := 1\<rparr>
   \<and> repaymentRatio ratio_lo < repaymentRatio ratio_hi
   \<and> CreditScore.Score (CalculateScore (sha256json test_env) 1000 (Some ratio_lo)
        (Some verified_offchain)) = 571
   \<and> CreditScore.Score (CalculateScore (sha256json test_env) 1000 (Some ratio_hi)
        (Some verified_offchain)) = 548
   \<and> \<not> CreditScore.Score (CalculateScore (sha256json test_env) 1000 (Some ratio_lo)
          (Some verified_offchain))
        \<le> CreditScore.Score (CalculateScore (sha256json test_env) 1000 (Some ratio_hi)
            (Some verified_offchain))"
proof -
  have 1: "ratio_hi = ratio_lo\<lparr>BorrowingHistory := 1, RepaymentHistory := 1\<rparr>"
    by (simp add: ratio_hi_def ratio_lo_def)
  have 2: "repaymentRatio ratio_lo < repaymentRatio ratio_hi"
    by (simp add: repaymentRatio_def ratio_hi_def ratio_lo_def float_of_uint32_def)
  have 3: "CreditScore.Score (CalculateScore (sha256json test_env) 1000 (Some ratio_lo)
        (Some verified_offchain)) = 571"
    by (simp add: engine_defs ratio_lo_def verified_offchain_def test_onchain_def
        offChain_low_score_def)
  have 4: "CreditScore.Score (CalculateScore (sha256json test_env) 1000 (Some ratio_hi)
        (Some verified_offchain)) = 548"
    by (simp add: engine_defs ratio_hi_def verified_offchain_def test_onchain_def
        offChain_low_score_def)
  show ?thesis unfolding 3 4 using 1 2 by simp
qed

end
